theory Spec2Isabelle
  imports Complex_Main "HOL-Library.Product_Lexorder" "HOL-Library.Sublist" "HOL-Library.Multiset"
begin

section \<open>Data model\<close>

text \<open>
  The weigh-in endpoints of \<^verbatim>\<open>api_views.py\<close> and the serializers of
  \<^verbatim>\<open>serializers.py\<close>, as functions over an explicit store.

  A Python \<^verbatim>\<open>str\<close> is a \<^typ>\<open>string\<close> holding its UTF-8 bytes, so
  \<^verbatim>\<open>s.encode('utf-8')\<close> does not change the representation. A calendar date is its
  ordinal day number, a point in time a number of microseconds, a weight a real number
  (the rounding of Python floats is not modelled).
\<close>

type_synonym date = int
type_synonym datetime = int

record user =
  uid :: nat
  weight_unit :: string
  special_code :: string

text \<open>A competitor reference: \<^verbatim>\<open>teammate.id\<close> and \<^verbatim>\<open>teammate.team.challenge.id\<close>.\<close>

record teammate =
  teammate_id :: nat
  challenge_id :: nat

text \<open>A row of the \<^verbatim>\<open>Weight\<close> model.\<close>

record Weight =
  pk :: nat
  participant :: nat
  verified :: bool
  "method" :: string
  date_of_measurement :: date
  weight_kilograms :: real
  weight_in_pounds :: real
  verifier_file :: "string option"
  video_link :: "string option"
  competitors :: "nat list"
  created :: datetime
  modified :: datetime

text \<open>
  The exceptions a request can end in, and the HTTP status the framework's exception
  handler gives each: a \<^verbatim>\<open>serializers.ValidationError\<close> is a 400, a refused permission a
  403, a missing object a 404, any other Python exception a 500.
\<close>

datatype error =
    ValidationError string
  | PermissionDenied
  | Http404
  | KeyError string
  | TypeError
  | IndexError
  | AttributeError

fun status_code :: "error \<Rightarrow> nat" where
  "status_code (ValidationError m) = 400"
| "status_code PermissionDenied = 403"
| "status_code Http404 = 404"
| "status_code (KeyError k) = 500"
| "status_code TypeError = 500"
| "status_code IndexError = 500"
| "status_code AttributeError = 500"

text \<open>
  The store: the rows of \<^verbatim>\<open>Weight\<close>, the next primary key, the database clock that
  stamps \<^verbatim>\<open>created\<close> and \<^verbatim>\<open>modified\<close>, and the measurement ids handed to
  \<^verbatim>\<open>celery_send_congratulations_email.delay\<close>.
\<close>

record world =
  weights :: "Weight list"
  next_pk :: nat
  db_now :: datetime
  congratulations :: "nat list"

text \<open>
  What \<^verbatim>\<open>serializers.py\<close> imports from modules that are not part of the two files:
  the validators and the conversion helper of \<^verbatim>\<open>.utils\<close>, the constant
  \<^verbatim>\<open>MAIN_COMPETITION\<close>, the S3 settings, and from the standard library the hash, the
  MAC, the JSON printer and the date formatter; from \<^verbatim>\<open>.models\<close> the manager
  \<^verbatim>\<open>Weight.existing\<close>, its query \<^verbatim>\<open>before_date\<close> and the method \<^verbatim>\<open>Weight.weight\<close>; from \<^verbatim>\<open>sorl.thumbnail\<close> the
  thumbnail's URL. They are parameters of the model. A
  validator returns its value or raises \<^verbatim>\<open>serializers.ValidationError\<close> with a message
  (\<^term>\<open>Inl\<close>); \<^verbatim>\<open>validate_date\<close> and \<^verbatim>\<open>validate_weight\<close> may read the stored rows.
\<close>

datatype json =
    JString string
  | JArray "json list"
  | JObject "(string \<times> json) list"

record env =
  validate_date :: "Weight list \<Rightarrow> date \<Rightarrow> string + date"
  validate_weight :: "Weight list \<Rightarrow> user \<Rightarrow> real \<Rightarrow> date option \<Rightarrow> bool \<Rightarrow> string + real"
  validate_competitor :: "string option \<Rightarrow> string + teammate list"
  validate_height :: "int \<Rightarrow> int \<Rightarrow> user \<Rightarrow> string + unit"
  convert_weight_to_kgs_and_lbs :: "string \<Rightarrow> real \<Rightarrow> real \<times> real"
  MAIN_COMPETITION :: nat
  S3_BUCKET_NAME :: string
  S3_SECRET_KEY :: string
  S3_ACCESS_KEY :: string
  sha1_hexdigest :: "string \<Rightarrow> string"
  hmac_sha1_digest :: "string \<Rightarrow> string \<Rightarrow> string"
  json_dumps :: "json \<Rightarrow> string"
  strftime :: "datetime \<Rightarrow> string"
  existing :: "Weight list \<Rightarrow> Weight list"
  before_date :: "Weight list \<Rightarrow> user \<Rightarrow> date \<Rightarrow> Weight list"
  Weight_weight :: "Weight \<Rightarrow> real"
  get_thumbnail :: "string option \<Rightarrow> string option \<Rightarrow> string"

text \<open>Raising the validator's message as a \<^verbatim>\<open>ValidationError\<close>.\<close>

definition raising :: "string + 'a \<Rightarrow> error + 'a" where
  "raising r = (case r of Inl m \<Rightarrow> Inl (ValidationError m) | Inr v \<Rightarrow> Inr v)"

text \<open>Sequencing: the first exception raised ends the request.\<close>

definition and_then :: "error + 'a \<Rightarrow> ('a \<Rightarrow> error + 'b) \<Rightarrow> error + 'b" where
  "and_then r f = (case r of Inl err \<Rightarrow> Inl err | Inr v \<Rightarrow> f v)"

subsection \<open>The ORM calls the serializers make\<close>

text \<open>
  \<^verbatim>\<open>Weight.objects.create(...)\<close> inserts the row under a fresh primary key and stamps it;
  \<^verbatim>\<open>instance.save()\<close> writes the row back under its key.
\<close>

definition objects_create :: "world \<Rightarrow> Weight \<Rightarrow> world \<times> Weight" where
  "objects_create w row =
     (let m = row\<lparr>pk := next_pk w, created := db_now w, modified := db_now w\<rparr>
      in (w\<lparr>weights := weights w @ [m], next_pk := Suc (next_pk w)\<rparr>, m))"

definition instance_save :: "world \<Rightarrow> Weight \<Rightarrow> world" where
  "instance_save w m =
     w\<lparr>weights := map (\<lambda>r. if pk r = pk m then m\<lparr>modified := db_now w\<rparr> else r) (weights w)\<rparr>"

text \<open>Python truth of an optional string: \<^verbatim>\<open>None\<close> and \<^verbatim>\<open>''\<close> are false.\<close>

fun truthy :: "string option \<Rightarrow> bool" where
  "truthy None = False"
| "truthy (Some s) = (s \<noteq> [])"


section \<open>Field validation of the framework\<close>

text \<open>
  Before a serializer's \<^verbatim>\<open>validate\<close> runs, \<^verbatim>\<open>is_valid\<close> runs each declared field:
  a required field that is absent fails, and a \<^verbatim>\<open>CharField\<close> strips the surrounding
  whitespace, refuses what is then empty and enforces \<^verbatim>\<open>max_length\<close>, a number of
  characters. Of the errors of several fields the model keeps the first.
\<close>

text \<open>
  A Python \<^verbatim>\<open>str\<close> is modelled by its UTF-8 encoding, a list of bytes: a character is
  one byte below \<^verbatim>\<open>0x80\<close>, or a lead byte followed by continuation bytes \<^verbatim>\<open>0x80\<close> to
  \<^verbatim>\<open>0xBF\<close>. \<^verbatim>\<open>len\<close> counts the characters.
\<close>

definition continuation_byte :: "char \<Rightarrow> bool" where
  "continuation_byte c = (128 \<le> (of_char c :: nat) \<and> (of_char c :: nat) < 192)"

definition len :: "string \<Rightarrow> nat" where
  "len s = length (filter (\<lambda>c. \<not> continuation_byte c) s)"

text \<open>
  The characters for which \<^verbatim>\<open>str.isspace()\<close> holds, each in UTF-8: the ASCII ones
  \<^verbatim>\<open>\t \n \v \f \r\<close>, \<^verbatim>\<open>\x1c\<close> to \<^verbatim>\<open>\x1f\<close> and the space, then U+0085, U+00A0, U+1680,
  U+2000 to U+200A, U+2028, U+2029, U+202F, U+205F and U+3000.
\<close>

definition whitespace :: "string list" where
  "whitespace =
     [[CHR 0x09], [CHR 0x0A], [CHR 0x0B], [CHR 0x0C], [CHR 0x0D], [CHR 0x1C],
      [CHR 0x1D], [CHR 0x1E], [CHR 0x1F], [CHR 0x20], [CHR 0xC2, CHR 0x85],
      [CHR 0xC2, CHR 0xA0], [CHR 0xE1, CHR 0x9A, CHR 0x80],
      [CHR 0xE2, CHR 0x80, CHR 0x80], [CHR 0xE2, CHR 0x80, CHR 0x81],
      [CHR 0xE2, CHR 0x80, CHR 0x82], [CHR 0xE2, CHR 0x80, CHR 0x83],
      [CHR 0xE2, CHR 0x80, CHR 0x84], [CHR 0xE2, CHR 0x80, CHR 0x85],
      [CHR 0xE2, CHR 0x80, CHR 0x86], [CHR 0xE2, CHR 0x80, CHR 0x87],
      [CHR 0xE2, CHR 0x80, CHR 0x88], [CHR 0xE2, CHR 0x80, CHR 0x89],
      [CHR 0xE2, CHR 0x80, CHR 0x8A], [CHR 0xE2, CHR 0x80, CHR 0xA8],
      [CHR 0xE2, CHR 0x80, CHR 0xA9], [CHR 0xE2, CHR 0x80, CHR 0xAF],
      [CHR 0xE2, CHR 0x81, CHR 0x9F], [CHR 0xE3, CHR 0x80, CHR 0x80]]"

text \<open>
  \<^verbatim>\<open>str.lstrip()\<close>, \<^verbatim>\<open>str.rstrip()\<close> and \<^verbatim>\<open>str.strip()\<close>: the whitespace characters at
  the front, at the back and at both ends are removed, one character at a time.
  \<open>leading_whitespace\<close> is the number of bytes of the whitespace character a string
  starts with, or 0; \<open>trailing_whitespace\<close> the same for the one it ends with.
\<close>

definition leading_whitespace :: "string \<Rightarrow> nat" where
  "leading_whitespace s =
     (case find (\<lambda>ws. prefix ws s) whitespace of None \<Rightarrow> 0 | Some ws \<Rightarrow> length ws)"

definition trailing_whitespace :: "string \<Rightarrow> nat" where
  "trailing_whitespace s =
     (case find (\<lambda>ws. suffix ws s) whitespace of None \<Rightarrow> 0 | Some ws \<Rightarrow> length ws)"

function lstrip :: "string \<Rightarrow> string" where
  "lstrip s =
     (if leading_whitespace s = 0 then s else lstrip (drop (leading_whitespace s) s))"
  by pat_completeness auto
termination
proof (relation "measure length")
  show "wf (measure length)"
    by simp
next
  fix s :: string
  assume a: "leading_whitespace s \<noteq> 0"
  have "s \<noteq> []"
  proof
    assume "s = []"
    then have "leading_whitespace s = 0"
      by (simp add: leading_whitespace_def whitespace_def)
    with a show False by simp
  qed
  with a show "(drop (leading_whitespace s) s, s) \<in> measure length"
    by simp
qed

function rstrip :: "string \<Rightarrow> string" where
  "rstrip s =
     (if trailing_whitespace s = 0 then s
      else rstrip (take (length s - trailing_whitespace s) s))"
  by pat_completeness auto
termination
proof (relation "measure length")
  show "wf (measure length)"
    by simp
next
  fix s :: string
  assume a: "trailing_whitespace s \<noteq> 0"
  have "s \<noteq> []"
  proof
    assume "s = []"
    then have "trailing_whitespace s = 0"
      by (simp add: trailing_whitespace_def whitespace_def)
    with a show False by simp
  qed
  with a show "(take (length s - trailing_whitespace s) s, s) \<in> measure length"
    by simp
qed

definition strip :: "string \<Rightarrow> string" where
  "strip s = rstrip (lstrip s)"

definition required :: "'a option \<Rightarrow> error + 'a" where
  "required v = (case v of None \<Rightarrow> Inl (ValidationError ''This field is required.'')
                         | Some x \<Rightarrow> Inr x)"

definition CharField :: "nat option \<Rightarrow> string \<Rightarrow> error + string" where
  "CharField max_length raw =
     (let v = strip raw in
      if v = [] then Inl (ValidationError ''This field may not be blank.'')
      else if (case max_length of None \<Rightarrow> False | Some n \<Rightarrow> n < len v)
        then Inl (ValidationError ''Ensure this field has no more characters than allowed.'')
      else Inr v)"

text \<open>A \<^verbatim>\<open>CharField(required=False)\<close>: an absent key stays absent.\<close>

definition optional_CharField :: "nat option \<Rightarrow> string option \<Rightarrow> error + string option" where
  "optional_CharField max_length raw =
     (case raw of None \<Rightarrow> Inr None
      | Some s \<Rightarrow> (case CharField max_length s of Inl e \<Rightarrow> Inl e | Inr v \<Rightarrow> Inr (Some v)))"

text \<open>A \<^verbatim>\<open>DateField(validators=[validate_date])\<close>: the validator's value is dropped.\<close>

definition DateField :: "env \<Rightarrow> Weight list \<Rightarrow> date \<Rightarrow> error + date" where
  "DateField e rows d =
     (case raising (validate_date e rows d) of Inl err \<Rightarrow> Inl err | Inr _ \<Rightarrow> Inr d)"

section \<open>VideoVerificationSerializer\<close>

text \<open>The body of a video-verification request, each key present or not.\<close>

record video_request =
  rq_weight :: "real option"
  rq_date :: "date option"
  rq_s3_file_url :: "string option"
  rq_video_url :: "string option"
  rq_competitor_ids :: "string option"
  rq_platform :: "string option"

text \<open>The dictionary \<^verbatim>\<open>validate\<close> receives, and the one it returns.\<close>

record video_data =
  vf_weight :: real
  vf_date_of_measurement :: date
  vf_s3_file_url :: "string option"
  vf_video_url :: "string option"
  vf_competitor_ids :: "string option"
  vf_platform :: string

record video_validated =
  vv_user :: user
  vv_weight_unit :: string
  vv_weight :: real
  vv_date_of_measurement :: date
  vv_platform :: string
  vv_s3_file_url :: "string option"
  vv_video_url :: "string option"
  vv_competitors :: "teammate list"

definition VideoVerificationSerializer_fields ::
  "env \<Rightarrow> Weight list \<Rightarrow> video_request \<Rightarrow> error + video_data" where
  "VideoVerificationSerializer_fields e rows rq =
     and_then (required (rq_weight rq)) (\<lambda>wt.
     and_then (required (rq_date rq)) (\<lambda>d0.
     and_then (DateField e rows d0) (\<lambda>d.
     and_then (optional_CharField (Some 500) (rq_s3_file_url rq)) (\<lambda>s3.
     and_then (optional_CharField (Some 500) (rq_video_url rq)) (\<lambda>vid.
     and_then (optional_CharField (Some 100) (rq_competitor_ids rq)) (\<lambda>cids.
     and_then (case rq_platform rq of None \<Rightarrow> Inr ''mobile'' | Some p \<Rightarrow> CharField None p)
       (\<lambda>plat.
     Inr \<lparr>vf_weight = wt, vf_date_of_measurement = d, vf_s3_file_url = s3,
          vf_video_url = vid, vf_competitor_ids = cids, vf_platform = plat\<rparr>)))))))"

definition VideoVerificationSerializer_validate ::
  "env \<Rightarrow> Weight list \<Rightarrow> user \<Rightarrow> video_data \<Rightarrow> error + video_validated" where
  "VideoVerificationSerializer_validate e rows usr data =
     (let weight = vf_weight data;
          date = vf_date_of_measurement data;
          competitor_ids = vf_competitor_ids data
      in case raising (validate_competitor e competitor_ids) of Inl err \<Rightarrow> Inl err
         | Inr comps \<Rightarrow>
        (case raising (validate_weight e rows usr weight (Some date) False) of Inl err \<Rightarrow> Inl err
         | Inr wt \<Rightarrow>
           if \<not> truthy (vf_s3_file_url data) \<and> \<not> truthy (vf_video_url data)
           then Inl (ValidationError ''Please attach a video file or include a video link.'')
           else Inr \<lparr>vv_user = usr, vv_weight_unit = weight_unit usr, vv_weight = wt,
                     vv_date_of_measurement = date, vv_platform = vf_platform data,
                     vv_s3_file_url = vf_s3_file_url data, vv_video_url = vf_video_url data,
                     vv_competitors = comps\<rparr>))"

definition VideoVerificationSerializer_create ::
  "env \<Rightarrow> world \<Rightarrow> video_validated \<Rightarrow> world \<times> Weight" where
  "VideoVerificationSerializer_create e w vd =
     (let (weight_kilograms', weight_in_pounds') =
            convert_weight_to_kgs_and_lbs e (vv_weight_unit vd) (vv_weight vd);
          (w1, measurement) = objects_create w
            \<lparr>pk = 0, participant = uid (vv_user vd), verified = True,
             method = vv_platform vd, date_of_measurement = vv_date_of_measurement vd,
             weight_kilograms = weight_kilograms', weight_in_pounds = weight_in_pounds',
             verifier_file = None, video_link = None, competitors = [],
             created = 0, modified = 0\<rparr>;
          m1 = (if truthy (vv_s3_file_url vd)
                then measurement\<lparr>verifier_file := vv_s3_file_url vd\<rparr>
                else measurement\<lparr>video_link := vv_video_url vd\<rparr>);
          (w2, m2) =
            (if vv_competitors vd \<noteq> [] then
               (let teammate_id_list = map teammate_id (vv_competitors vd);
                    m = m1\<lparr>competitors := remdups (competitors m1 @ teammate_id_list)\<rparr>;
                    challenges_id_list = map challenge_id (vv_competitors vd)
                in if MAIN_COMPETITION e \<in> set challenges_id_list
                   then (w1\<lparr>congratulations := congratulations w1 @ [pk m]\<rparr>, m)
                   else (w1, m))
             else (w1, m1))
      in (instance_save w2 m2, m2))"

text \<open>
  \<^verbatim>\<open>ApiVideoVerificationView\<close> is a \<^verbatim>\<open>CreateAPIView\<close>: \<^verbatim>\<open>is_valid(raise_exception=True)\<close>,
  then \<^verbatim>\<open>save()\<close>, which calls \<^verbatim>\<open>create\<close>. A request that fails leaves the store as it was.
\<close>

definition VideoVerificationSerializer_is_valid ::
  "env \<Rightarrow> Weight list \<Rightarrow> user \<Rightarrow> video_request \<Rightarrow> error + video_validated" where
  "VideoVerificationSerializer_is_valid e rows usr rq =
     (case VideoVerificationSerializer_fields e rows rq of Inl err \<Rightarrow> Inl err
      | Inr data \<Rightarrow> VideoVerificationSerializer_validate e rows usr data)"

definition ApiVideoVerificationView_post ::
  "env \<Rightarrow> world \<Rightarrow> user \<Rightarrow> video_request \<Rightarrow> world \<times> (error + Weight)" where
  "ApiVideoVerificationView_post e w usr rq =
     (case VideoVerificationSerializer_is_valid e (weights w) usr rq of
        Inl err \<Rightarrow> (w, Inl err)
      | Inr vd \<Rightarrow> (let (w', m) = VideoVerificationSerializer_create e w vd in (w', Inr m)))"


section \<open>Strings and encodings of the standard library\<close>

text \<open>
  \<^verbatim>\<open>str.lower()\<close>, on the ASCII letters. The bytes of the other characters are left as
  they are: the code compares the result with \<^verbatim>\<open>jpg\<close>, \<^verbatim>\<open>jpeg\<close> and \<^verbatim>\<open>png\<close> only, and
  no other character has one of their letters as its lower case.
\<close>

definition lower_char :: "char \<Rightarrow> char" where
  "lower_char c =
     (if 65 \<le> (of_char c :: nat) \<and> (of_char c :: nat) \<le> 90
      then char_of ((of_char c :: nat) + 32) else c)"

definition lower :: "string \<Rightarrow> string" where
  "lower s = map lower_char s"

text \<open>
  \<^verbatim>\<open>bytes.strip()\<close> removes the six ASCII whitespace bytes only, where \<^verbatim>\<open>str.strip()\<close>
  (\<^const>\<open>strip\<close>) also removes the four separators \<^verbatim>\<open>\x1c\<close> to \<^verbatim>\<open>\x1f\<close> and the
  whitespace beyond ASCII.
\<close>

definition bytes_isspace :: "char \<Rightarrow> bool" where
  "bytes_isspace c =
     (c \<in> set [CHR '' '', CHR 0x09, CHR 0x0A, CHR 0x0D, CHR 0x0B, CHR 0x0C])"

definition bytes_strip :: "string \<Rightarrow> string" where
  "bytes_strip s = rev (dropWhile bytes_isspace (rev (dropWhile bytes_isspace s)))"

text \<open>\<^verbatim>\<open>p.rfind(c)\<close>: the index of the last occurrence, or \<open>-1\<close>.\<close>

fun rfind_from :: "char \<Rightarrow> string \<Rightarrow> nat \<Rightarrow> int \<Rightarrow> int" where
  "rfind_from c [] i found = found"
| "rfind_from c (x # xs) i found = rfind_from c xs (Suc i) (if x = c then int i else found)"

definition rfind :: "string \<Rightarrow> char \<Rightarrow> int" where
  "rfind p c = rfind_from c p 0 (- 1)"

text \<open>
  \<^verbatim>\<open>os.path.splitext\<close> (\<^verbatim>\<open>genericpath._splitext\<close> with separator \<^verbatim>\<open>/\<close>): the extension
  starts at the last dot, when that dot follows the last separator and some character
  between the two is not a dot. The \<^verbatim>\<open>while\<close> loop over \<^verbatim>\<open>filenameIndex\<close> is
  \<open>splitext_loop\<close>.
\<close>

function splitext_loop :: "string \<Rightarrow> nat \<Rightarrow> nat \<Rightarrow> (string \<times> string) option" where
  "splitext_loop p filenameIndex dotIndex =
     (if filenameIndex < dotIndex then
        (if take 1 (drop filenameIndex p) \<noteq> ''.''
         then Some (take dotIndex p, drop dotIndex p)
         else splitext_loop p (filenameIndex + 1) dotIndex)
      else None)"
  by pat_completeness auto
termination
  by (relation "measure (\<lambda>(p, filenameIndex, dotIndex). dotIndex - filenameIndex)") auto

definition splitext :: "string \<Rightarrow> string \<times> string" where
  "splitext p =
     (let sepIndex = rfind p CHR ''/'';
          dotIndex = rfind p CHR ''.''
      in if sepIndex < dotIndex then
           (case splitext_loop p (nat (sepIndex + 1)) (nat dotIndex) of
              Some r \<Rightarrow> r
            | None \<Rightarrow> (p, []))
         else (p, []))"

text \<open>\<^verbatim>\<open>int(x)\<close> of a float truncates towards zero; \<^verbatim>\<open>str(n)\<close> prints an integer in decimal.\<close>

definition py_int :: "real \<Rightarrow> int" where
  "py_int x = (if 0 \<le> x then \<lfloor>x\<rfloor> else \<lceil>x\<rceil>)"

definition digit_char :: "nat \<Rightarrow> char" where
  "digit_char d = char_of (48 + d)"

fun str_nat :: "nat \<Rightarrow> string" where
  "str_nat n = (if n < 10 then [digit_char n] else str_nat (n div 10) @ [digit_char (n mod 10)])"

definition str_int :: "int \<Rightarrow> string" where
  "str_int i = (if i < 0 then CHR ''-'' # str_nat (nat (- i)) else str_nat (nat i))"

text \<open>
  \<^verbatim>\<open>base64.b64encode\<close>: three bytes become four characters of the standard alphabet, a
  last group of one or two bytes is padded with \<^verbatim>\<open>=\<close>.
\<close>

definition b64_alphabet :: string where
  "b64_alphabet = ''ABCDEFGHIJKLMNOPQRSTUVWXYZabcdefghijklmnopqrstuvwxyz0123456789+/''"

definition b64_char :: "nat \<Rightarrow> char" where
  "b64_char n = b64_alphabet ! n"

fun b64encode :: "string \<Rightarrow> string" where
  "b64encode [] = []"
| "b64encode [a] =
     (let x = (of_char a :: nat)
      in [b64_char (x div 4), b64_char ((x mod 4) * 16), CHR ''='', CHR ''=''])"
| "b64encode [a, b] =
     (let x = (of_char a :: nat); y = (of_char b :: nat)
      in [b64_char (x div 4), b64_char ((x mod 4) * 16 + y div 16),
          b64_char ((y mod 16) * 4), CHR ''=''])"
| "b64encode (a # b # c # rest) =
     (let x = (of_char a :: nat); y = (of_char b :: nat); z = (of_char c :: nat)
      in [b64_char (x div 4), b64_char ((x mod 4) * 16 + y div 16),
          b64_char ((y mod 16) * 4 + z div 64), b64_char (z mod 64)] @ b64encode rest)"

text \<open>
  \<^verbatim>\<open>base64.encodestring\<close> (\<^verbatim>\<open>encodebytes\<close>): each chunk of 57 bytes is encoded and
  followed by a newline.
\<close>

function encodestring :: "string \<Rightarrow> string" where
  "encodestring s =
     (if s = [] then [] else b64encode (take 57 s) @ [CHR 0x0A] @ encodestring (drop 57 s))"
  by pat_completeness auto
termination
  by (relation "measure length") auto


section \<open>WeightSerializer and CreateWeighinAPIView\<close>

text \<open>
  The body of a weigh-in: the date, which the serializer declares, and the weight, which
  \<^verbatim>\<open>validate\<close> reads from \<^verbatim>\<open>initial_data\<close>. The view builds the serializer with
  \<^verbatim>\<open>partial=True\<close>, so no key is required. The columns the \<^verbatim>\<open>ModelSerializer\<close> derives
  from the model are left out: \<^verbatim>\<open>create\<close> reads none of them.
\<close>

record weighin_request =
  wr_date_of_measurement :: "date option"
  wr_weight :: "real option"

text \<open>
  \<^verbatim>\<open>validated_data\<close>: the keys \<^verbatim>\<open>validate\<close> sets, and the keys \<^verbatim>\<open>save(**kwargs)\<close> may add.
\<close>

record weight_validated =
  wv_date_of_measurement :: "date option"
  wv_user :: user
  wv_weight_unit :: string
  wv_weight :: real
  wv_verified :: "bool option"
  wv_method :: "string option"
  wv_participant_id :: "nat option"

record save_kwargs =
  kw_verified :: "bool option"
  kw_method :: "string option"
  kw_participant_id :: "nat option"
  kw_date_of_measurement :: "date option"

definition WeightSerializer_fields ::
  "env \<Rightarrow> Weight list \<Rightarrow> weighin_request \<Rightarrow> error + date option" where
  "WeightSerializer_fields e rows rq =
     (case wr_date_of_measurement rq of None \<Rightarrow> Inr None
      | Some d0 \<Rightarrow> (case DateField e rows d0 of Inl err \<Rightarrow> Inl err | Inr d \<Rightarrow> Inr (Some d)))"

text \<open>\<^verbatim>\<open>float(None)\<close> raises \<^verbatim>\<open>TypeError\<close>.\<close>

definition WeightSerializer_validate ::
  "env \<Rightarrow> Weight list \<Rightarrow> user \<Rightarrow> real option \<Rightarrow> date option \<Rightarrow> error + weight_validated" where
  "WeightSerializer_validate e rows usr initial_weight date =
     (case initial_weight of None \<Rightarrow> Inl TypeError
      | Some weight \<Rightarrow>
         (case raising (validate_weight e rows usr weight date False) of Inl err \<Rightarrow> Inl err
          | Inr wt \<Rightarrow>
             Inr \<lparr>wv_date_of_measurement = date, wv_user = usr,
                  wv_weight_unit = weight_unit usr, wv_weight = wt,
                  wv_verified = None, wv_method = None, wv_participant_id = None\<rparr>))"

definition WeightSerializer_is_valid ::
  "env \<Rightarrow> Weight list \<Rightarrow> user \<Rightarrow> weighin_request \<Rightarrow> error + weight_validated" where
  "WeightSerializer_is_valid e rows usr rq =
     (case WeightSerializer_fields e rows rq of Inl err \<Rightarrow> Inl err
      | Inr date \<Rightarrow> WeightSerializer_validate e rows usr (wr_weight rq) date)"

text \<open>
  \<^verbatim>\<open>create\<close> reads \<^verbatim>\<open>weight_unit\<close>, \<^verbatim>\<open>weight\<close> and \<^verbatim>\<open>date_of_measurement\<close> from
  \<^verbatim>\<open>validated_data\<close>, and writes \<^verbatim>\<open>verified=False\<close> and \<^verbatim>\<open>method='mobile'\<close> whatever else
  the dictionary holds. A missing date is a \<^verbatim>\<open>KeyError\<close>.
\<close>

definition WeightSerializer_create ::
  "env \<Rightarrow> world \<Rightarrow> weight_validated \<Rightarrow> world \<times> (error + Weight)" where
  "WeightSerializer_create e w validated_data =
     (let (weight_kilograms', weight_in_pounds') =
            convert_weight_to_kgs_and_lbs e (wv_weight_unit validated_data)
              (wv_weight validated_data)
      in case wv_date_of_measurement validated_data of
           None \<Rightarrow> (w, Inl (KeyError ''date_of_measurement''))
         | Some d \<Rightarrow>
             (let (w', m) = objects_create w
                    \<lparr>pk = 0, participant = uid (wv_user validated_data), verified = False,
                     method = ''mobile'', date_of_measurement = d,
                     weight_kilograms = weight_kilograms',
                     weight_in_pounds = weight_in_pounds',
                     verifier_file = None, video_link = None, competitors = [],
                     created = 0, modified = 0\<rparr>
              in (w', Inr m)))"

text \<open>
  \<^verbatim>\<open>serializer.save(**kwargs)\<close> of the framework:
  \<^verbatim>\<open>validated_data = {**self.validated_data, **kwargs}\<close>, then \<^verbatim>\<open>create\<close>.
\<close>

definition merge_kwargs :: "weight_validated \<Rightarrow> save_kwargs \<Rightarrow> weight_validated" where
  "merge_kwargs vd kw =
     vd\<lparr>wv_verified := (case kw_verified kw of None \<Rightarrow> wv_verified vd | Some v \<Rightarrow> Some v),
        wv_method := (case kw_method kw of None \<Rightarrow> wv_method vd | Some v \<Rightarrow> Some v),
        wv_participant_id :=
          (case kw_participant_id kw of None \<Rightarrow> wv_participant_id vd | Some v \<Rightarrow> Some v),
        wv_date_of_measurement :=
          (case kw_date_of_measurement kw of None \<Rightarrow> wv_date_of_measurement vd
           | Some v \<Rightarrow> Some v)\<rparr>"

definition WeightSerializer_save ::
  "env \<Rightarrow> world \<Rightarrow> weight_validated \<Rightarrow> save_kwargs \<Rightarrow> world \<times> (error + Weight)" where
  "WeightSerializer_save e w vd kw = WeightSerializer_create e w (merge_kwargs vd kw)"

text \<open>
  \<^verbatim>\<open>round(x, 2)\<close>: to the nearest hundredth, a tie to the even one.
\<close>

definition round_half_even :: "real \<Rightarrow> int" where
  "round_half_even x =
     (if x - of_int \<lfloor>x\<rfloor> < 1 / 2 then \<lfloor>x\<rfloor>
      else if 1 / 2 < x - of_int \<lfloor>x\<rfloor> then \<lfloor>x\<rfloor> + 1
      else if even \<lfloor>x\<rfloor> then \<lfloor>x\<rfloor> else \<lfloor>x\<rfloor> + 1)"

definition py_round :: "real \<Rightarrow> nat \<Rightarrow> real" where
  "py_round x ndigits = of_int (round_half_even (x * 10 ^ ndigits)) / 10 ^ ndigits"

text \<open>
  What \<^verbatim>\<open>serializer.data\<close> renders is the saved instance, or the dictionary
  \<^verbatim>\<open>validated_data\<close> when nothing was saved.
\<close>

datatype weighin_data = OfInstance Weight | OfValidated weight_validated

text \<open>
  \<^verbatim>\<open>get_weight\<close>, the getter of the \<^verbatim>\<open>SerializerMethodField\<close> \<^verbatim>\<open>weight\<close>:
  \<^verbatim>\<open>round(instance.weight(), 2)\<close>. On a row \<^verbatim>\<open>instance.weight\<close> is the method of the
  model; a dictionary has no attribute \<^verbatim>\<open>weight\<close> (its \<^verbatim>\<open>weight\<close> is a key), so the
  call raises \<^verbatim>\<open>AttributeError\<close>.
\<close>

definition get_weight :: "env \<Rightarrow> weighin_data \<Rightarrow> error + real" where
  "get_weight e inst =
     (case inst of
        OfInstance m \<Rightarrow> Inr (py_round (Weight_weight e m) 2)
      | OfValidated vd \<Rightarrow> Inl AttributeError)"

text \<open>
  \<^verbatim>\<open>weighin_serializer.data\<close>: the framework's \<^verbatim>\<open>to_representation\<close> of the instance
  renders the fields in their order, the declared ones \<^verbatim>\<open>date_of_measurement\<close> and
  \<^verbatim>\<open>weight\<close> before the columns of the model. The read-only primary key is skipped when
  the instance has none; a required field that the instance lacks is a \<^verbatim>\<open>KeyError\<close>, and
  the exception of a getter is not caught. The representation of a row is written
  \<^term>\<open>OfInstance m\<close>: the row's columns, and under \<^verbatim>\<open>weight\<close> the value of
  \<^const>\<open>get_weight\<close>.
\<close>

definition get_attribute_date_of_measurement :: "weighin_data \<Rightarrow> error + date" where
  "get_attribute_date_of_measurement inst =
     (case inst of
        OfInstance m \<Rightarrow> Inr (date_of_measurement m)
      | OfValidated vd \<Rightarrow>
          (case wv_date_of_measurement vd of
             None \<Rightarrow> Inl (KeyError ''date_of_measurement'')
           | Some d \<Rightarrow> Inr d))"

definition WeightSerializer_data :: "env \<Rightarrow> weighin_data \<Rightarrow> error + weighin_data" where
  "WeightSerializer_data e inst =
     and_then (get_attribute_date_of_measurement inst)
       (\<lambda>date. and_then (get_weight e inst) (\<lambda>weight. Inr inst))"

text \<open>A \<^verbatim>\<open>Response(data)\<close> has status 200 unless another is given.\<close>

datatype 'a response = Response (resp_status: nat) (resp_data: 'a)

text \<open>
  \<^verbatim>\<open>CreateWeighinAPIView.post\<close>. \<^verbatim>\<open>request.GET.get('weighin_type', False)\<close> is \<^term>\<open>None\<close>
  when the parameter is absent; \<open>today\<close> is \<^verbatim>\<open>date.today()\<close>. For a type that is neither
  \<^verbatim>\<open>self-reported\<close> nor \<^verbatim>\<open>verified\<close> nothing is saved, and \<^verbatim>\<open>weighin_serializer.data\<close>
  renders the validated dictionary.
\<close>

definition CreateWeighinAPIView_post ::
  "env \<Rightarrow> date \<Rightarrow> world \<Rightarrow> user \<Rightarrow> string option \<Rightarrow> weighin_request
     \<Rightarrow> world \<times> (error + weighin_data response)" where
  "CreateWeighinAPIView_post e today w usr weighin_type rq =
     (case WeightSerializer_is_valid e (weights w) usr rq of
        Inl err \<Rightarrow> (w, Inl err)
      | Inr vd \<Rightarrow>
          if weighin_type = Some ''self-reported'' then
            (case WeightSerializer_save e w vd
                    \<lparr>kw_verified = Some False, kw_method = Some ''web'',
                     kw_participant_id = Some (uid usr),
                     kw_date_of_measurement = Some today\<rparr> of
               (w', Inl err) \<Rightarrow> (w', Inl err)
             | (w', Inr m) \<Rightarrow>
                 (w', and_then (WeightSerializer_data e (OfInstance m))
                        (\<lambda>data. Inr (Response 200 data))))
          else if weighin_type = Some ''verified'' then
            (case WeightSerializer_save e w vd
                    \<lparr>kw_verified = Some True, kw_method = Some ''web'',
                     kw_participant_id = Some (uid usr),
                     kw_date_of_measurement = None\<rparr> of
               (w', Inl err) \<Rightarrow> (w', Inl err)
             | (w', Inr m) \<Rightarrow>
                 (w', and_then (WeightSerializer_data e (OfInstance m))
                        (\<lambda>data. Inr (Response 200 data))))
          else
            (w, and_then (WeightSerializer_data e (OfValidated vd))
                  (\<lambda>data. Inr (Response 200 data))))"

section \<open>UnverifiedWeightSerializer and CreateUnverifiedWeighinAPIView\<close>

text \<open>\<^verbatim>\<open>queryset.order_by('field')\<close> and \<^verbatim>\<open>queryset.order_by('-field')\<close>.\<close>

definition order_by :: "('a \<Rightarrow> 'k::linorder) \<Rightarrow> 'a list \<Rightarrow> 'a list" where
  "order_by k qs = sort_key k qs"

definition order_by_desc :: "('a \<Rightarrow> 'k::linorder) \<Rightarrow> 'a list \<Rightarrow> 'a list" where
  "order_by_desc k qs = rev (sort_key k qs)"

record unverified_request =
  ur_date_of_measurement :: "date option"
  ur_weight :: "real option"
  ur_weight_image :: "string option"

record unverified_validated =
  uv_date_of_measurement :: date
  uv_weight :: real
  uv_weight_unit :: string

text \<open>The value of \<^verbatim>\<open>lost_weight\<close> is a string or the number 0.\<close>

datatype pyvalue = Str string | Num int

record delta =
  first_entry :: bool
  weight_difference :: real
  lost_weight :: pyvalue
  delta_weight_unit :: string

definition UnverifiedWeightSerializer_to_representation ::
  "env \<Rightarrow> Weight list \<Rightarrow> user \<Rightarrow> date \<Rightarrow> error + delta" where
  "UnverifiedWeightSerializer_to_representation e rows usr d =
     (let weigh_ins = order_by date_of_measurement (before_date e rows usr d)
      in if 1 < length weigh_ins then
           (case order_by_desc created weigh_ins of
              new_weigh_in # old_weigh_in # _ \<Rightarrow>
                (let weight_difference' =
                       (if weight_unit usr = ''kg''
                        then weight_kilograms old_weigh_in - weight_kilograms new_weigh_in
                        else weight_in_pounds old_weigh_in - weight_in_pounds new_weigh_in);
                     lost_weight' =
                       (if 0 \<le> weight_difference' then Str ''lost'' else Str ''gained'')
                 in Inr \<lparr>first_entry = False, weight_difference = \<bar>weight_difference'\<bar>,
                         lost_weight = lost_weight', delta_weight_unit = weight_unit usr\<rparr>)
            | _ \<Rightarrow> Inl IndexError)
         else Inr \<lparr>first_entry = True, weight_difference = \<bar>0\<bar>, lost_weight = Num 0,
                   delta_weight_unit = weight_unit usr\<rparr>)"

definition validate_weigh_in_type :: "string option \<Rightarrow> error + unit" where
  "validate_weigh_in_type weigh_in_type =
     (if \<not> truthy weigh_in_type then Inl (ValidationError ''Weigh-in type is required'')
      else if the weigh_in_type \<notin> set [''self-reported'', ''verified'']
        then Inl (ValidationError ''Invalid weigh-in type'')
      else Inr ())"

definition UnverifiedWeightSerializer_fields ::
  "env \<Rightarrow> Weight list \<Rightarrow> unverified_request \<Rightarrow> error + date \<times> real" where
  "UnverifiedWeightSerializer_fields e rows rq =
     and_then (required (ur_date_of_measurement rq)) (\<lambda>d0.
     and_then (DateField e rows d0) (\<lambda>d.
     and_then (required (ur_weight rq)) (\<lambda>wt. Inr (d, wt))))"

definition UnverifiedWeightSerializer_validate ::
  "env \<Rightarrow> Weight list \<Rightarrow> user \<Rightarrow> string option \<Rightarrow> real option \<Rightarrow> date
     \<Rightarrow> error + unverified_validated" where
  "UnverifiedWeightSerializer_validate e rows usr weighin_type initial_weight date =
     (case initial_weight of None \<Rightarrow> Inl TypeError
      | Some weight \<Rightarrow>
         (case validate_weigh_in_type weighin_type of Inl err \<Rightarrow> Inl err
          | Inr _ \<Rightarrow>
             (case raising (validate_weight e rows usr weight (Some date) False) of
                Inl err \<Rightarrow> Inl err
              | Inr _ \<Rightarrow>
                  Inr \<lparr>uv_date_of_measurement = date, uv_weight = weight,
                       uv_weight_unit = weight_unit usr\<rparr>)))"

definition UnverifiedWeightSerializer_is_valid ::
  "env \<Rightarrow> Weight list \<Rightarrow> user \<Rightarrow> string option \<Rightarrow> unverified_request
     \<Rightarrow> error + unverified_validated" where
  "UnverifiedWeightSerializer_is_valid e rows usr weighin_type rq =
     (case UnverifiedWeightSerializer_fields e rows rq of Inl err \<Rightarrow> Inl err
      | Inr (d, wt) \<Rightarrow>
          UnverifiedWeightSerializer_validate e rows usr weighin_type (ur_weight rq) d)"

definition UnverifiedWeightSerializer_save ::
  "env \<Rightarrow> world \<Rightarrow> user \<Rightarrow> unverified_validated \<Rightarrow> string option \<Rightarrow> world \<times> Weight" where
  "UnverifiedWeightSerializer_save e w usr validated_data initial_weight_image =
     (let (weight_kilograms', weight_in_pounds') =
            convert_weight_to_kgs_and_lbs e (uv_weight_unit validated_data)
              (uv_weight validated_data)
      in objects_create w
           \<lparr>pk = 0, participant = uid usr, verified = False, method = ''mobile'',
            date_of_measurement = uv_date_of_measurement validated_data,
            weight_kilograms = weight_kilograms', weight_in_pounds = weight_in_pounds',
            verifier_file = initial_weight_image, video_link = None, competitors = [],
            created = 0, modified = 0\<rparr>)"

text \<open>
  \<^verbatim>\<open>get_weight_image\<close> is the getter of the \<^verbatim>\<open>SerializerMethodField\<close> \<^verbatim>\<open>weight_image\<close>.
  A method field is read-only and its getter runs only while the default
  \<^verbatim>\<open>to_representation\<close> renders the fields; this serializer overrides
  \<^verbatim>\<open>to_representation\<close>, and neither it nor \<^verbatim>\<open>validate\<close> nor \<^verbatim>\<open>save\<close> calls the getter.
\<close>

definition get_weight_image ::
  "env \<Rightarrow> string option \<Rightarrow> string option \<Rightarrow> error + string option" where
  "get_weight_image e weight_image verifier_file' =
     (if truthy weight_image then
        (let image_name = the weight_image;
             extension = lower (strip (drop 1 (snd (splitext image_name))))
         in if extension \<in> set [''jpg'', ''jpeg'', ''png'']
            then Inr (Some (get_thumbnail e verifier_file'
                     (if sublist ''.png'' image_name then Some ''PNG'' else None)))
            else Inl (ValidationError
              ''Images must be in PNG or JPG or JPEG format, and no larger than 10MB in size''))
      else Inr None)"

text \<open>
  \<^verbatim>\<open>CreateUnverifiedWeighinAPIView.post\<close>: \<^verbatim>\<open>is_valid\<close>, \<^verbatim>\<open>save\<close>, and the response renders
  \<^verbatim>\<open>to_representation(validated_data)\<close> against the store as \<^verbatim>\<open>save\<close> left it.
\<close>

definition CreateUnverifiedWeighinAPIView_post ::
  "env \<Rightarrow> world \<Rightarrow> user \<Rightarrow> string option \<Rightarrow> unverified_request
     \<Rightarrow> world \<times> (error + delta response)" where
  "CreateUnverifiedWeighinAPIView_post e w usr weighin_type rq =
     (case UnverifiedWeightSerializer_is_valid e (weights w) usr weighin_type rq of
        Inl err \<Rightarrow> (w, Inl err)
      | Inr vd \<Rightarrow>
          (let (w', m) = UnverifiedWeightSerializer_save e w usr vd (ur_weight_image rq)
           in case UnverifiedWeightSerializer_to_representation e (weights w') usr
                     (uv_date_of_measurement vd) of
                Inl err \<Rightarrow> (w', Inl err)
              | Inr d \<Rightarrow> (w', Inr (Response 200 d))))"

section \<open>UpdateWeightSerializer, UpdateWeight, DeleteWeightAPIView, RetrieveWeighinAPIView\<close>

text \<open>
  The body of an update. \<^verbatim>\<open>weight_image\<close> is an uploaded file, of which the model keeps the
  name; a file is true in Python when its name is not empty. With \<^verbatim>\<open>PATCH\<close> the serializer
  is partial and no key is required.
\<close>

record update_request =
  up_date_of_measurement :: "date option"
  up_weight :: "real option"
  up_weight_image :: "string option"
  up_remove_image :: "bool option"

record update_validated =
  uq_date_of_measurement :: "date option"
  uq_weight :: real
  uq_weight_unit :: string
  uq_remove_image :: "bool option"

definition image_has_correct_format :: "string option \<Rightarrow> error + unit" where
  "image_has_correct_format img =
     (if truthy img then
        (let image_format = lower (strip (drop 1 (snd (splitext (the img)))))
         in if image_format \<notin> set [''jpg'', ''jpeg'', ''png'']
            then Inl (ValidationError ''Images must be in PNG or JPG or JPEG format'')
            else Inr ())
      else Inr ())"

definition UpdateWeightSerializer_fields ::
  "env \<Rightarrow> Weight list \<Rightarrow> bool \<Rightarrow> update_request \<Rightarrow> error + date option \<times> real option" where
  "UpdateWeightSerializer_fields e rows partial rq =
     (case (case up_date_of_measurement rq of
              None \<Rightarrow> (if partial then Inr None
                        else Inl (ValidationError ''This field is required.''))
            | Some d0 \<Rightarrow>
                (case DateField e rows d0 of Inl err \<Rightarrow> Inl err | Inr d \<Rightarrow> Inr (Some d))) of
        Inl err \<Rightarrow> Inl err
      | Inr date \<Rightarrow>
          (case up_weight rq of
             None \<Rightarrow> (if partial then Inr (date, None)
                       else Inl (ValidationError ''This field is required.''))
           | Some wt \<Rightarrow> Inr (date, Some wt)))"

definition UpdateWeightSerializer_validate ::
  "env \<Rightarrow> Weight list \<Rightarrow> user \<Rightarrow> update_request \<Rightarrow> date option \<Rightarrow> real option
     \<Rightarrow> error + update_validated" where
  "UpdateWeightSerializer_validate e rows usr rq date_of_measurement' weight' =
     (case weight' of None \<Rightarrow> Inl TypeError
      | Some weight \<Rightarrow>
         (case image_has_correct_format (up_weight_image rq) of Inl err \<Rightarrow> Inl err
          | Inr _ \<Rightarrow>
             (case raising (validate_weight e rows usr weight date_of_measurement' True) of
                Inl err \<Rightarrow> Inl err
              | Inr _ \<Rightarrow>
                  Inr \<lparr>uq_date_of_measurement = date_of_measurement', uq_weight = weight,
                       uq_weight_unit = weight_unit usr,
                       uq_remove_image = up_remove_image rq\<rparr>)))"

definition UpdateWeightSerializer_is_valid ::
  "env \<Rightarrow> Weight list \<Rightarrow> user \<Rightarrow> bool \<Rightarrow> update_request \<Rightarrow> error + update_validated" where
  "UpdateWeightSerializer_is_valid e rows usr partial rq =
     (case UpdateWeightSerializer_fields e rows partial rq of Inl err \<Rightarrow> Inl err
      | Inr (date, weight) \<Rightarrow> UpdateWeightSerializer_validate e rows usr rq date weight)"

definition UpdateWeightSerializer_update ::
  "env \<Rightarrow> world \<Rightarrow> Weight \<Rightarrow> update_validated \<Rightarrow> string option
     \<Rightarrow> world \<times> (error + Weight)" where
  "UpdateWeightSerializer_update e w instance validated_data weight_image =
     (let (weight_kilograms', weight_in_pounds') =
            convert_weight_to_kgs_and_lbs e (uq_weight_unit validated_data)
              (uq_weight validated_data)
      in case uq_date_of_measurement validated_data of
           None \<Rightarrow> (w, Inl (KeyError ''date_of_measurement''))
         | Some d \<Rightarrow>
             (let i1 = instance\<lparr>date_of_measurement := d,
                                weight_kilograms := weight_kilograms',
                                weight_in_pounds := weight_in_pounds'\<rparr>;
                  i2 = (if truthy weight_image then i1\<lparr>verifier_file := weight_image\<rparr>
                        else if uq_remove_image validated_data = Some True
                          then i1\<lparr>verifier_file := None\<rparr>
                        else i1)
              in (instance_save w i2, Inr i2)))"

text \<open>
  Modelled from the spec: \<^verbatim>\<open>core.permissions.BelongsToUser\<close>, which the two files only
  import. The spec calls it the reusable ownership permission check: a measurement is
  mutated only by its owning participant.
\<close>

definition BelongsToUser :: "user \<Rightarrow> Weight \<Rightarrow> bool" where
  "BelongsToUser usr obj = (participant obj = uid usr)"

text \<open>
  \<^verbatim>\<open>get_object\<close> of the framework's generic views: the row with the key of the URL or a
  404, then \<^verbatim>\<open>check_object_permissions\<close> with the view's \<^verbatim>\<open>permission_classes\<close>.
\<close>

definition get_object :: "Weight list \<Rightarrow> user \<Rightarrow> nat \<Rightarrow> error + Weight" where
  "get_object rows usr k =
     (case find (\<lambda>r. pk r = k) rows of
        None \<Rightarrow> Inl Http404
      | Some obj \<Rightarrow> if BelongsToUser usr obj then Inr obj else Inl PermissionDenied)"

text \<open>
  \<^verbatim>\<open>UpdateWeight\<close> is an \<^verbatim>\<open>UpdateAPIView\<close>: \<^verbatim>\<open>get_object\<close>, \<^verbatim>\<open>is_valid\<close>, then
  \<^verbatim>\<open>save\<close>, which calls \<^verbatim>\<open>update\<close>.
\<close>

definition UpdateWeight_update ::
  "env \<Rightarrow> world \<Rightarrow> user \<Rightarrow> nat \<Rightarrow> bool \<Rightarrow> update_request \<Rightarrow> world \<times> (error + Weight)" where
  "UpdateWeight_update e w usr k partial rq =
     (case get_object (weights w) usr k of
        Inl err \<Rightarrow> (w, Inl err)
      | Inr instance \<Rightarrow>
          (case UpdateWeightSerializer_is_valid e (weights w) usr partial rq of
             Inl err \<Rightarrow> (w, Inl err)
           | Inr vd \<Rightarrow> UpdateWeightSerializer_update e w instance vd (up_weight_image rq)))"

text \<open>\<^verbatim>\<open>DeleteWeightAPIView\<close> is a \<^verbatim>\<open>DestroyAPIView\<close>: \<^verbatim>\<open>get_object\<close>, then \<^verbatim>\<open>delete\<close>.\<close>

definition DeleteWeightAPIView_destroy ::
  "world \<Rightarrow> user \<Rightarrow> nat \<Rightarrow> world \<times> (error + unit response)" where
  "DeleteWeightAPIView_destroy w usr k =
     (case get_object (weights w) usr k of
        Inl err \<Rightarrow> (w, Inl err)
      | Inr instance \<Rightarrow>
          (w\<lparr>weights := filter (\<lambda>r. pk r \<noteq> pk instance) (weights w)\<rparr>,
           Inr (Response 204 ())))"

definition RetrieveWeighinAPIView_get_queryset :: "env \<Rightarrow> Weight list \<Rightarrow> user \<Rightarrow> Weight list" where
  "RetrieveWeighinAPIView_get_queryset e rows usr =
     order_by_desc (\<lambda>r. (date_of_measurement r, modified r))
       (filter (\<lambda>r. participant r = uid usr) (existing e rows))"

section \<open>ApiSignS3PutRequestViewSerializer and ApiSignS3PutRequestView\<close>

text \<open>
  The query parameters of a signing request, each key present or not; the numbers and
  the date are held as their fields parse them.
\<close>

record sign_request =
  sq_weight :: "real option"
  sq_height_big :: "int option"
  sq_height_small :: "int option"
  sq_date :: "date option"
  sq_video_filename :: "string option"
  sq_competitor_ids :: "string option"

record sign_validated =
  sv_user :: user
  sv_date :: date
  sv_video_filename :: string
  sv_competitor_ids :: "teammate list"

record sign_response =
  bucket_url :: string
  s3_file_url :: string
  key :: string
  policy :: string
  signature :: string
  AWSAccessKeyId :: string
  acl :: string
  success_action_status :: nat
  Content_Type :: string

text \<open>
  \<^verbatim>\<open>request.GET\<close> is form input: there the empty value of a field that is not required
  counts as absent.
\<close>

definition optional_CharField_html ::
  "nat option \<Rightarrow> string option \<Rightarrow> error + string option" where
  "optional_CharField_html max_length raw =
     (if raw = Some [] then Inr None else optional_CharField max_length raw)"

text \<open>
  \<^verbatim>\<open>is_valid\<close>: the declared fields, then \<^verbatim>\<open>validate\<close>, which checks the heights, the
  competitors and the date and adds the user.
\<close>

definition ApiSignS3PutRequestViewSerializer_is_valid ::
  "env \<Rightarrow> Weight list \<Rightarrow> user \<Rightarrow> sign_request \<Rightarrow> error + sign_validated" where
  "ApiSignS3PutRequestViewSerializer_is_valid e rows usr rq =
     and_then (required (sq_weight rq)) (\<lambda>wt.
     and_then (required (sq_height_big rq)) (\<lambda>height_big.
     and_then (required (sq_height_small rq)) (\<lambda>height_small.
     and_then (required (sq_date rq)) (\<lambda>date.
     and_then (required (sq_video_filename rq)) (\<lambda>raw_name.
     and_then (CharField (Some 1000) raw_name) (\<lambda>video_filename.
     and_then (optional_CharField_html (Some 100) (sq_competitor_ids rq)) (\<lambda>competitor_ids.
     and_then (raising (validate_height e height_big height_small usr)) (\<lambda>_.
     and_then (raising (validate_competitor e competitor_ids)) (\<lambda>comps.
     and_then (raising (validate_date e rows date)) (\<lambda>date'.
     Inr \<lparr>sv_user = usr, sv_date = date', sv_video_filename = video_filename,
          sv_competitor_ids = comps\<rparr>))))))))))"

text \<open>
  \<^verbatim>\<open>create\<close>, in the order of the source. \<open>t\<close> is what \<^verbatim>\<open>time.time()\<close> returns, in seconds,
  and \<open>now\<close> what \<^verbatim>\<open>timezone.now()\<close> returns, in microseconds. \<^verbatim>\<open>base64.encodestring\<close> is
  the function of Python 3.8 and earlier, where it is another name of
  \<^verbatim>\<open>base64.encodebytes\<close>.
\<close>

text \<open>
  Modelled from the spec: \<^verbatim>\<open>timezone.timedelta(days=n)\<close>. The module \<^verbatim>\<open>timezone\<close> is
  imported from \<^verbatim>\<open>.utils\<close>, which is not one of the two files; its \<^verbatim>\<open>timedelta\<close> is taken
  to be the one of \<^verbatim>\<open>datetime\<close>, as the spec has the policy expire 30 days from issuance.
\<close>

definition timedelta_days :: "int \<Rightarrow> int" where
  "timedelta_days n = n * 86400 * 1000000"

definition encoded_file_name :: "string \<Rightarrow> string" where
  "encoded_file_name video_filename =
     (let (file_name, file_extension) = splitext video_filename
      in b64encode file_name @ file_extension)"

definition expires :: "real \<Rightarrow> int" where
  "expires t = py_int (t + 1000)"

definition object_name :: "env \<Rightarrow> real \<Rightarrow> user \<Rightarrow> string \<Rightarrow> string" where
  "object_name e t usr video_filename =
     sha1_hexdigest e (str_int (expires t))
       @ ''-'' @ special_code usr @ ''-'' @ encoded_file_name video_filename"

definition conditions :: "env \<Rightarrow> string \<Rightarrow> json list" where
  "conditions e object_name' =
     [JObject [(''bucket'', JString (S3_BUCKET_NAME e))],
      JArray [JString ''starts-with'', JString ''$key'', JString object_name'],
      JObject [(''acl'', JString ''public-read'')],
      JObject [(''success_action_status'', JString ''201'')],
      JArray [JString ''starts-with'', JString ''$Content-Type'', JString []]]"

definition policy_document :: "env \<Rightarrow> datetime \<Rightarrow> string \<Rightarrow> json" where
  "policy_document e now object_name' =
     JObject [(''expiration'', JString (strftime e (now + timedelta_days 30))),
              (''conditions'', JArray (conditions e object_name'))]"

definition ApiSignS3PutRequestViewSerializer_create ::
  "env \<Rightarrow> real \<Rightarrow> datetime \<Rightarrow> sign_validated \<Rightarrow> sign_response" where
  "ApiSignS3PutRequestViewSerializer_create e t now validated_data =
     (let object_name' = object_name e t (sv_user validated_data)
                           (sv_video_filename validated_data);
          policy' = b64encode (json_dumps e (policy_document e now object_name'));
          signature' = encodestring (hmac_sha1_digest e (S3_SECRET_KEY e) policy');
          bucket_url' = ''https://'' @ S3_BUCKET_NAME e @ ''.s3.amazonaws.com/'';
          file_url = ''https://'' @ S3_BUCKET_NAME e @ ''.s3.amazonaws.com/'' @ object_name'
      in \<lparr>bucket_url = bucket_url', s3_file_url = file_url, key = strip object_name',
          policy = bytes_strip policy', signature = bytes_strip signature',
          AWSAccessKeyId = S3_ACCESS_KEY e, acl = ''public-read'',
          success_action_status = 201, Content_Type = []\<rparr>)"

definition ApiSignS3PutRequestView_get ::
  "env \<Rightarrow> real \<Rightarrow> datetime \<Rightarrow> Weight list \<Rightarrow> user \<Rightarrow> sign_request
     \<Rightarrow> error + sign_response response" where
  "ApiSignS3PutRequestView_get e t now rows usr rq =
     (case ApiSignS3PutRequestViewSerializer_is_valid e rows usr rq of
        Inl err \<Rightarrow> Inl err
      | Inr vd \<Rightarrow> Inr (Response 200 (ApiSignS3PutRequestViewSerializer_create e t now vd)))"

section \<open>An instance of the parameters\<close>

text \<open>
  Validators that accept everything, a conversion between the two units, and fixed
  values for the settings and the library functions: enough to run the model on concrete
  requests.
\<close>

definition example_env :: env where
  "example_env =
     \<lparr>validate_date = (\<lambda>rows d. Inr d),
      validate_weight = (\<lambda>rows usr wt d upd. Inr wt),
      validate_competitor =
        (\<lambda>ids. case ids of None \<Rightarrow> Inr []
               | Some _ \<Rightarrow> Inr [\<lparr>teammate_id = 7, challenge_id = 1\<rparr>]),
      validate_height = (\<lambda>big small usr. Inr ()),
      convert_weight_to_kgs_and_lbs =
        (\<lambda>unit wt. if unit = ''kg'' then (wt, wt * 2) else (wt / 2, wt)),
      MAIN_COMPETITION = 1,
      S3_BUCKET_NAME = ''bucket'',
      S3_SECRET_KEY = ''secret'',
      S3_ACCESS_KEY = ''access'',
      sha1_hexdigest = (\<lambda>s. ''0f'' @ s),
      hmac_sha1_digest = (\<lambda>k m. ''01234567890123456789''),
      json_dumps = (\<lambda>j. ''{}''),
      strftime = (\<lambda>t. str_int t),
      existing = (\<lambda>rows. rows),
      before_date =
        (\<lambda>rows usr d. filter (\<lambda>r. participant r = uid usr \<and> date_of_measurement r \<le> d) rows),
      Weight_weight = weight_kilograms,
      get_thumbnail = (\<lambda>file fmt. ''thumbnail'')\<rparr>"

definition alice :: user where
  "alice = \<lparr>uid = 1, weight_unit = ''kg'', special_code = ''A1''\<rparr>"

definition bob :: user where
  "bob = \<lparr>uid = 2, weight_unit = ''lb'', special_code = ''B2''\<rparr>"

definition empty_world :: world where
  "empty_world = \<lparr>weights = [], next_pk = 1, db_now = 0, congratulations = []\<rparr>"

definition row :: "nat \<Rightarrow> nat \<Rightarrow> date \<Rightarrow> real \<Rightarrow> datetime \<Rightarrow> Weight" where
  "row k owner d kg stamp =
     \<lparr>pk = k, participant = owner, verified = False, method = ''mobile'',
      date_of_measurement = d, weight_kilograms = kg, weight_in_pounds = kg * 2,
      verifier_file = None, video_link = None, competitors = [],
      created = stamp, modified = stamp\<rparr>"

section \<open>Properties\<close>

subsection \<open>Whitespace\<close>

declare lstrip.simps [simp del]

declare rstrip.simps [simp del]

declare splitext_loop.simps [simp del]

declare encodestring.simps [simp del]

lemma whitespace_nonempty: "ws \<in> set whitespace \<Longrightarrow> ws \<noteq> []"
  by (auto simp: whitespace_def)

lemma find_whitespace_cong:
  "(\<And>ws. ws \<in> set whitespace \<Longrightarrow> P ws = Q ws) \<Longrightarrow> find P whitespace = find Q whitespace"
  by (rule find_cong) simp_all

lemma whitespace_byte: "ws \<in> set whitespace \<Longrightarrow> c \<in> set ws \<Longrightarrow> c \<in> set (concat whitespace)"
  by auto

lemma leading_whitespace_0_iff:
  "leading_whitespace s = 0 \<longleftrightarrow> (\<forall>ws \<in> set whitespace. \<not> prefix ws s)"
proof (cases "find (\<lambda>ws. prefix ws s) whitespace")
  case None
  then have "\<forall>ws \<in> set whitespace. \<not> prefix ws s"
    by (auto simp: find_None_iff)
  moreover have "leading_whitespace s = 0"
    using None by (simp add: leading_whitespace_def)
  ultimately show ?thesis
    by simp
next
  case (Some ws)
  then have "ws \<in> set whitespace" "prefix ws s"
    by (auto simp: find_Some_iff)
  then show ?thesis
    using Some whitespace_nonempty by (auto simp: leading_whitespace_def)
qed

lemma trailing_whitespace_0_iff:
  "trailing_whitespace s = 0 \<longleftrightarrow> (\<forall>ws \<in> set whitespace. \<not> suffix ws s)"
proof (cases "find (\<lambda>ws. suffix ws s) whitespace")
  case None
  then have "\<forall>ws \<in> set whitespace. \<not> suffix ws s"
    by (auto simp: find_None_iff)
  moreover have "trailing_whitespace s = 0"
    using None by (simp add: trailing_whitespace_def)
  ultimately show ?thesis
    by simp
next
  case (Some ws)
  then have "ws \<in> set whitespace" "suffix ws s"
    by (auto simp: find_Some_iff)
  then show ?thesis
    using Some whitespace_nonempty by (auto simp: trailing_whitespace_def)
qed

lemma leading_whitespace_le: "leading_whitespace s \<le> length s"
proof (cases "find (\<lambda>ws. prefix ws s) whitespace")
  case None
  then show ?thesis
    by (simp add: leading_whitespace_def)
next
  case (Some ws)
  then have "prefix ws s"
    by (auto simp: find_Some_iff)
  then show ?thesis
    using Some by (simp add: leading_whitespace_def prefix_length_le)
qed

lemma trailing_whitespace_le: "trailing_whitespace s \<le> length s"
proof (cases "find (\<lambda>ws. suffix ws s) whitespace")
  case None
  then show ?thesis
    by (simp add: trailing_whitespace_def)
next
  case (Some ws)
  then have "suffix ws s"
    by (auto simp: find_Some_iff)
  then show ?thesis
    using Some by (simp add: trailing_whitespace_def suffix_length_le)
qed

lemma lstrip_Nil: "lstrip [] = []"
  by (subst lstrip.simps) (simp add: leading_whitespace_0_iff whitespace_nonempty)

lemma rstrip_Nil: "rstrip [] = []"
  by (subst rstrip.simps) (simp add: trailing_whitespace_0_iff whitespace_nonempty)

lemma strip_Nil: "strip [] = []"
  by (simp add: strip_def lstrip_Nil rstrip_Nil)

lemma lstrip_id: "leading_whitespace s = 0 \<Longrightarrow> lstrip s = s"
  by (subst lstrip.simps) simp

lemma rstrip_id: "trailing_whitespace s = 0 \<Longrightarrow> rstrip s = s"
  by (subst rstrip.simps) simp

lemma leading_whitespace_lstrip: "leading_whitespace (lstrip s) = 0"
proof (induction s rule: lstrip.induct)
  case (1 s)
  then show ?case
    by (subst lstrip.simps) simp
qed

lemma trailing_whitespace_rstrip: "trailing_whitespace (rstrip s) = 0"
proof (induction s rule: rstrip.induct)
  case (1 s)
  then show ?case
    by (subst rstrip.simps) simp
qed

lemma trailing_whitespace_strip: "trailing_whitespace (strip s) = 0"
  by (simp add: strip_def trailing_whitespace_rstrip)

text \<open>
  A byte that occurs in no whitespace character separates what is stripped on its left
  from what is stripped on its right.
\<close>

lemma prefix_whitespace_append:
  assumes "ws \<in> set whitespace" and "c \<notin> set (concat whitespace)"
  shows "prefix ws (h @ c # r) \<longleftrightarrow> prefix ws h"
proof
  assume "prefix ws (h @ c # r)"
  then consider "prefix ws h" | us where "ws = h @ us" "prefix us (c # r)"
    by (auto simp: prefix_append)
  then show "prefix ws h"
  proof cases
    case 1
    then show ?thesis .
  next
    case 2
    show ?thesis
    proof (cases us)
      case Nil
      then show ?thesis using 2 by simp
    next
      case (Cons u us')
      then have "c \<in> set ws"
        using 2 by auto
      then show ?thesis
        using assms whitespace_byte by blast
    qed
  qed
next
  assume "prefix ws h"
  then show "prefix ws (h @ c # r)"
    by (rule prefix_prefix)
qed

lemma suffix_whitespace_append:
  assumes "ws \<in> set whitespace" and "c \<notin> set (concat whitespace)"
  shows "suffix ws (h @ c # r) \<longleftrightarrow> suffix ws r"
proof
  assume "suffix ws (h @ c # r)"
  then have "suffix ws ((h @ [c]) @ r)"
    by simp
  then consider "suffix ws r" | us where "ws = us @ r" "suffix us (h @ [c])"
    unfolding suffix_append by blast
  then show "suffix ws r"
  proof cases
    case 1
    then show ?thesis .
  next
    case 2
    show ?thesis
    proof (cases "us = []")
      case True
      then show ?thesis using 2 by simp
    next
      case False
      then have "last us = c"
        using 2(2) by (metis last_appendR last_snoc suffix_def)
      then have "c \<in> set ws"
        using False 2(1) last_in_set by fastforce
      then show ?thesis
        using assms whitespace_byte by blast
    qed
  qed
next
  assume "suffix ws r"
  then show "suffix ws (h @ c # r)"
    by (simp add: suffix_append suffix_Cons)
qed

lemma leading_whitespace_append:
  assumes "c \<notin> set (concat whitespace)"
  shows "leading_whitespace (h @ c # r) = leading_whitespace h"
  unfolding leading_whitespace_def
  using find_whitespace_cong [of "\<lambda>ws. prefix ws (h @ c # r)" "\<lambda>ws. prefix ws h"]
    prefix_whitespace_append [OF _ assms]
  by simp

lemma trailing_whitespace_append:
  assumes "c \<notin> set (concat whitespace)"
  shows "trailing_whitespace (h @ c # r) = trailing_whitespace r"
  unfolding trailing_whitespace_def
  using find_whitespace_cong [of "\<lambda>ws. suffix ws (h @ c # r)" "\<lambda>ws. suffix ws r"]
    suffix_whitespace_append [OF _ assms]
  by simp

lemma lstrip_keep:
  assumes "c \<notin> set (concat whitespace)"
  shows "lstrip (h @ c # r) = lstrip h @ c # r"
proof (induction h rule: lstrip.induct)
  case (1 s)
  show ?case
  proof (cases "leading_whitespace s = 0")
    case True
    then show ?thesis
      using leading_whitespace_append [OF assms, of s r] by (simp add: lstrip_id)
  next
    case False
    have "lstrip (s @ c # r) = lstrip (drop (leading_whitespace s) (s @ c # r))"
      using False leading_whitespace_append [OF assms, of s r]
      by (subst lstrip.simps) simp
    also have "\<dots> = lstrip (drop (leading_whitespace s) s @ c # r)"
      using leading_whitespace_le [of s] by simp
    also have "\<dots> = lstrip (drop (leading_whitespace s) s) @ c # r"
      using "1.IH" [OF False] .
    also have "lstrip (drop (leading_whitespace s) s) = lstrip s"
      using False by (subst (2) lstrip.simps) simp
    finally show ?thesis .
  qed
qed

lemma rstrip_keep:
  assumes "c \<notin> set (concat whitespace)"
  shows "rstrip (h @ c # r) = h @ c # rstrip r"
proof (induction r rule: rstrip.induct)
  case (1 s)
  show ?case
  proof (cases "trailing_whitespace s = 0")
    case True
    then show ?thesis
      using trailing_whitespace_append [OF assms, of h s] by (simp add: rstrip_id)
  next
    case False
    let ?n = "trailing_whitespace s"
    have "rstrip (h @ c # s) = rstrip (take (length (h @ c # s) - ?n) (h @ c # s))"
      using False trailing_whitespace_append [OF assms, of h s]
      by (subst rstrip.simps) simp
    also have "take (length (h @ c # s) - ?n) (h @ c # s) = h @ c # take (length s - ?n) s"
      using trailing_whitespace_le [of s] by (simp add: Suc_diff_le)
    also have "rstrip (h @ c # take (length s - ?n) s) = h @ c # rstrip (take (length s - ?n) s)"
      using "1.IH" [OF False] .
    also have "rstrip (take (length s - ?n) s) = rstrip s"
      using False by (subst (2) rstrip.simps) simp
    finally show ?thesis .
  qed
qed

text \<open>A string that neither starts nor ends with a byte of a whitespace character.\<close>

lemma strip_plain:
  assumes "s \<noteq> []" and "hd s \<notin> set (concat whitespace)" and "last s \<notin> set (concat whitespace)"
  shows "strip s = s"
proof -
  have l: "lstrip s = s"
    using lstrip_keep [OF assms(2), of "[]" "tl s"] assms(1) by (simp add: lstrip_Nil)
  have "rstrip s = s"
    using rstrip_keep [OF assms(3), of "butlast s" "[]"] assms(1) by (simp add: rstrip_Nil)
  with l show ?thesis
    by (simp add: strip_def)
qed

lemma len_le: "len s \<le> length s"
  by (simp add: len_def)

subsection \<open>Sequencing and the fields\<close>

lemma and_then_simps [simp]:
  "and_then (Inl err) f = Inl err"
  "and_then (Inr v) f = f v"
  by (simp_all add: and_then_def)

lemma WeightSerializer_data_instance [simp]:
  "WeightSerializer_data e (OfInstance m) = Inr (OfInstance m)"
  by (simp add: WeightSerializer_data_def get_attribute_date_of_measurement_def get_weight_def)

lemma WeightSerializer_data_validated:
  "\<exists>err. WeightSerializer_data e (OfValidated vd) = Inl err \<and> status_code err = 500"
  by (cases "wv_date_of_measurement vd")
    (simp_all add: WeightSerializer_data_def get_attribute_date_of_measurement_def get_weight_def)

lemma WeightSerializer_data_validated_raises [simp]:
  "and_then (WeightSerializer_data e (OfValidated vd)) f \<noteq> Inr y"
  using WeightSerializer_data_validated [of e vd] by auto

lemma and_then_Inr: "and_then r f = Inr y \<Longrightarrow> \<exists>v. r = Inr v \<and> f v = Inr y"
  by (cases r) simp_all

lemma and_then_Inl:
  "and_then r f = Inl err \<Longrightarrow> r = Inl err \<or> (\<exists>v. r = Inr v \<and> f v = Inl err)"
  by (cases r) simp_all

lemma raising_Inl: "raising r = Inl err \<Longrightarrow> \<exists>m. err = ValidationError m"
  by (cases r) (auto simp: raising_def)

lemma required_Inl: "required v = Inl err \<Longrightarrow> \<exists>m. err = ValidationError m"
  by (cases v) (auto simp: required_def)

lemma CharField_Inl: "CharField n raw = Inl err \<Longrightarrow> \<exists>m. err = ValidationError m"
  by (auto simp: CharField_def Let_def split: if_splits)

lemma optional_CharField_Inl: "optional_CharField n raw = Inl err \<Longrightarrow> \<exists>m. err = ValidationError m"
  by (cases raw) (auto simp: optional_CharField_def split: sum.splits dest: CharField_Inl)

lemma DateField_Inl: "DateField e rows d = Inl err \<Longrightarrow> \<exists>m. err = ValidationError m"
  by (auto simp: DateField_def split: sum.splits dest: raising_Inl)

lemma DateField_Inr: "DateField e rows d = Inr d' \<Longrightarrow> d' = d"
  by (auto simp: DateField_def split: sum.splits)


lemma optional_CharField_falsy:
  "optional_CharField n raw = Inr v \<Longrightarrow> \<not> truthy raw \<Longrightarrow> v = None"
  by (cases raw) (auto simp: optional_CharField_def CharField_def strip_Nil split: sum.splits)

lemma video_fields_Inl:
  assumes "VideoVerificationSerializer_fields e rows rq = Inl err"
  shows "\<exists>m. err = ValidationError m"
proof -
  note d = and_then_Inl required_Inl DateField_Inl optional_CharField_Inl CharField_Inl
  show ?thesis
    using assms unfolding VideoVerificationSerializer_fields_def
    by (auto dest!: and_then_Inl dest: required_Inl DateField_Inl optional_CharField_Inl CharField_Inl
        split: option.splits)
qed

lemma video_fields_Inr:
  assumes "VideoVerificationSerializer_fields e rows rq = Inr data"
  shows "optional_CharField (Some 500) (rq_s3_file_url rq) = Inr (vf_s3_file_url data)"
    and "optional_CharField (Some 500) (rq_video_url rq) = Inr (vf_video_url data)"
  using assms unfolding VideoVerificationSerializer_fields_def
  by (auto dest!: and_then_Inr)

lemma video_validate_needs_proof:
  "\<not> truthy (vf_s3_file_url data) \<Longrightarrow> \<not> truthy (vf_video_url data) \<Longrightarrow>
   \<exists>m. VideoVerificationSerializer_validate e rows usr data = Inl (ValidationError m)"
  by (auto simp: VideoVerificationSerializer_validate_def raising_def Let_def split: sum.splits)

subsection \<open>Video verification\<close>

text \<open>
  Claim C3. A video-verification request whose \<^verbatim>\<open>s3_file_url\<close> and \<^verbatim>\<open>video_url\<close> are both
  absent or empty is rejected: the view answers with an error of status 400 and leaves the
  store as it was, so no measurement is created.
\<close>

theorem video_without_proof_rejected:
  assumes "\<not> truthy (rq_s3_file_url rq)" and "\<not> truthy (rq_video_url rq)"
  shows "\<exists>err. ApiVideoVerificationView_post e w usr rq = (w, Inl err) \<and> status_code err = 400"
proof (cases "VideoVerificationSerializer_fields e (weights w) rq")
  case (Inl err)
  then show ?thesis
    using video_fields_Inl [OF Inl]
    by (auto simp: ApiVideoVerificationView_post_def VideoVerificationSerializer_is_valid_def)
next
  case (Inr data)
  have "vf_s3_file_url data = None" "vf_video_url data = None"
    using video_fields_Inr [OF Inr] assms optional_CharField_falsy by blast+
  then obtain m where
    "VideoVerificationSerializer_validate e (weights w) usr data = Inl (ValidationError m)"
    using video_validate_needs_proof [of data e "weights w" usr] by auto
  then show ?thesis
    using Inr by (simp add: ApiVideoVerificationView_post_def VideoVerificationSerializer_is_valid_def)
qed

text \<open>The theorem at a request with no file reference and an empty video link.\<close>

theorem video_without_proof_rejected_witness:
  "\<not> truthy None \<and> \<not> truthy (Some []) \<and>
   (\<exists>err. ApiVideoVerificationView_post example_env empty_world alice
       \<lparr>rq_weight = Some 80, rq_date = Some 10, rq_s3_file_url = None, rq_video_url = Some [],
        rq_competitor_ids = None, rq_platform = None\<rparr> = (empty_world, Inl err)
     \<and> status_code err = 400)"
  using video_without_proof_rejected [of
       "\<lparr>rq_weight = Some 80, rq_date = Some 10, rq_s3_file_url = None, rq_video_url = Some [],
        rq_competitor_ids = None, rq_platform = None\<rparr>" example_env empty_world alice]
  by simp

text \<open>
  Claim C9. \<^verbatim>\<open>create\<close> hands the new measurement to the congratulations task exactly when
  some attached competitor's challenge is \<^verbatim>\<open>MAIN_COMPETITION\<close>; with no competitors (no
  such competitor exists) nothing is enqueued.
\<close>

theorem congratulations_iff_main_competition:
  "congratulations (fst (VideoVerificationSerializer_create e w vd)) =
     (if \<exists>t \<in> set (vv_competitors vd). challenge_id t = MAIN_COMPETITION e
      then congratulations w @ [pk (snd (VideoVerificationSerializer_create e w vd))]
      else congratulations w)"
proof -
  have mem: "MAIN_COMPETITION e \<in> set (map challenge_id (vv_competitors vd)) \<longleftrightarrow>
      (\<exists>t \<in> set (vv_competitors vd). challenge_id t = MAIN_COMPETITION e)"
  proof
    assume "MAIN_COMPETITION e \<in> set (map challenge_id (vv_competitors vd))"
    then show "\<exists>t \<in> set (vv_competitors vd). challenge_id t = MAIN_COMPETITION e"
      by auto
  next
    assume "\<exists>t \<in> set (vv_competitors vd). challenge_id t = MAIN_COMPETITION e"
    then obtain t where t: "t \<in> set (vv_competitors vd)" "challenge_id t = MAIN_COMPETITION e"
      by blast
    from t(1) have "challenge_id t \<in> set (map challenge_id (vv_competitors vd))"
      by simp
    with t(2) show "MAIN_COMPETITION e \<in> set (map challenge_id (vv_competitors vd))"
      by simp
  qed
  have nonempty: "(\<exists>t \<in> set (vv_competitors vd). challenge_id t = MAIN_COMPETITION e) \<Longrightarrow>
      vv_competitors vd \<noteq> []"
    by auto
  show ?thesis
    unfolding VideoVerificationSerializer_create_def objects_create_def instance_save_def
      Let_def mem
    using nonempty by (simp split: prod.splits)
qed

text \<open>
  The theorem with a competitor of the main competition, with one of another
  competition, and with none.
\<close>

theorem congratulations_iff_main_competition_witness:
  "congratulations (fst (VideoVerificationSerializer_create example_env empty_world
       \<lparr>vv_user = alice, vv_weight_unit = ''kg'', vv_weight = 80, vv_date_of_measurement = 3,
        vv_platform = ''mobile'', vv_s3_file_url = Some ''f'', vv_video_url = None,
        vv_competitors = [\<lparr>teammate_id = 7, challenge_id = 1\<rparr>]\<rparr>)) = [1]
   \<and> congratulations (fst (VideoVerificationSerializer_create example_env empty_world
       \<lparr>vv_user = alice, vv_weight_unit = ''kg'', vv_weight = 80, vv_date_of_measurement = 3,
        vv_platform = ''mobile'', vv_s3_file_url = Some ''f'', vv_video_url = None,
        vv_competitors = [\<lparr>teammate_id = 7, challenge_id = 2\<rparr>]\<rparr>)) = []
   \<and> congratulations (fst (VideoVerificationSerializer_create example_env empty_world
       \<lparr>vv_user = alice, vv_weight_unit = ''kg'', vv_weight = 80, vv_date_of_measurement = 3,
        vv_platform = ''mobile'', vv_s3_file_url = Some ''f'', vv_video_url = None,
        vv_competitors = []\<rparr>)) = []"
  using congratulations_iff_main_competition [of example_env empty_world
       "\<lparr>vv_user = alice, vv_weight_unit = ''kg'', vv_weight = 80, vv_date_of_measurement = 3,
        vv_platform = ''mobile'', vv_s3_file_url = Some ''f'', vv_video_url = None,
        vv_competitors = [\<lparr>teammate_id = 7, challenge_id = 1\<rparr>]\<rparr>"]
    congratulations_iff_main_competition [of example_env empty_world
       "\<lparr>vv_user = alice, vv_weight_unit = ''kg'', vv_weight = 80, vv_date_of_measurement = 3,
        vv_platform = ''mobile'', vv_s3_file_url = Some ''f'', vv_video_url = None,
        vv_competitors = [\<lparr>teammate_id = 7, challenge_id = 2\<rparr>]\<rparr>"]
    congratulations_iff_main_competition [of example_env empty_world
       "\<lparr>vv_user = alice, vv_weight_unit = ''kg'', vv_weight = 80, vv_date_of_measurement = 3,
        vv_platform = ''mobile'', vv_s3_file_url = Some ''f'', vv_video_url = None,
        vv_competitors = []\<rparr>"]
  by (simp add: example_env_def empty_world_def VideoVerificationSerializer_create_def
        objects_create_def instance_save_def Let_def)

subsection \<open>Creating a weigh-in\<close>

lemma WeightSerializer_is_valid_date:
  assumes "WeightSerializer_is_valid e rows usr rq = Inr vd"
  shows "wv_date_of_measurement vd = wr_date_of_measurement rq"
    and "wv_user vd = usr" and "wv_weight_unit vd = weight_unit usr"
  using assms
  by (auto simp: WeightSerializer_is_valid_def WeightSerializer_fields_def
        WeightSerializer_validate_def
      split: sum.splits option.splits dest: DateField_Inr)

lemma WeightSerializer_create_Some:
  assumes "wv_date_of_measurement vd = Some d"
  shows "\<exists>m. WeightSerializer_create e w vd =
           (w\<lparr>weights := weights w @ [m], next_pk := Suc (next_pk w)\<rparr>, Inr m)
         \<and> date_of_measurement m = d
         \<and> (weight_kilograms m, weight_in_pounds m) =
             convert_weight_to_kgs_and_lbs e (wv_weight_unit vd) (wv_weight vd)"
  using assms
  by (simp add: WeightSerializer_create_def objects_create_def Let_def split: prod.splits)

text \<open>
  Claim C10. For a request that passes validation, a self-reported submission to
  \<^verbatim>\<open>CreateWeighinAPIView\<close> persists a measurement dated \<^verbatim>\<open>date.today()\<close>, whatever date
  the body carried, and a verified submission persists the submitted date.
\<close>

theorem self_reported_date_is_today:
  assumes "WeightSerializer_is_valid e (weights w) usr rq = Inr vd"
  shows "(\<exists>m. CreateWeighinAPIView_post e today w usr (Some ''self-reported'') rq =
              (w\<lparr>weights := weights w @ [m], next_pk := Suc (next_pk w)\<rparr>,
               Inr (Response 200 (OfInstance m)))
            \<and> date_of_measurement m = today)
       \<and> (\<forall>d. wr_date_of_measurement rq = Some d \<longrightarrow>
            (\<exists>m. CreateWeighinAPIView_post e today w usr (Some ''verified'') rq =
                (w\<lparr>weights := weights w @ [m], next_pk := Suc (next_pk w)\<rparr>,
                 Inr (Response 200 (OfInstance m)))
              \<and> date_of_measurement m = d))"
proof (intro conjI allI impI)
  let ?kw = "\<lparr>kw_verified = Some False, kw_method = Some ''web'',
               kw_participant_id = Some (uid usr), kw_date_of_measurement = Some today\<rparr>"
  have "wv_date_of_measurement (merge_kwargs vd ?kw) = Some today"
    by (simp add: merge_kwargs_def)
  from WeightSerializer_create_Some [OF this, of e w]
  show "\<exists>m. CreateWeighinAPIView_post e today w usr (Some ''self-reported'') rq =
              (w\<lparr>weights := weights w @ [m], next_pk := Suc (next_pk w)\<rparr>,
               Inr (Response 200 (OfInstance m)))
            \<and> date_of_measurement m = today"
    using assms by (auto simp: CreateWeighinAPIView_post_def WeightSerializer_save_def)
next
  fix d assume d: "wr_date_of_measurement rq = Some d"
  let ?kw = "\<lparr>kw_verified = Some True, kw_method = Some ''web'',
               kw_participant_id = Some (uid usr), kw_date_of_measurement = None\<rparr>"
  have "wv_date_of_measurement (merge_kwargs vd ?kw) = Some d"
    using WeightSerializer_is_valid_date(1) [OF assms] d by (simp add: merge_kwargs_def)
  from WeightSerializer_create_Some [OF this, of e w]
  show "\<exists>m. CreateWeighinAPIView_post e today w usr (Some ''verified'') rq =
                (w\<lparr>weights := weights w @ [m], next_pk := Suc (next_pk w)\<rparr>,
                 Inr (Response 200 (OfInstance m)))
              \<and> date_of_measurement m = d"
    using assms by (auto simp: CreateWeighinAPIView_post_def WeightSerializer_save_def)
qed

text \<open>The fields of the example parameters and users, as rewrite rules.\<close>

lemma example_env_fields:
  "validate_date example_env rows d = Inr d"
  "validate_weight example_env rows usr wt dt upd = Inr wt"
  "validate_height example_env big small usr = Inr ()"
  "validate_competitor example_env None = Inr []"
  "convert_weight_to_kgs_and_lbs example_env ''kg'' wt = (wt, wt * 2)"
  "MAIN_COMPETITION example_env = 1"
  "S3_BUCKET_NAME example_env = ''bucket''"
  "S3_SECRET_KEY example_env = ''secret''"
  "S3_ACCESS_KEY example_env = ''access''"
  "sha1_hexdigest example_env s = ''0f'' @ s"
  "hmac_sha1_digest example_env k m = ''01234567890123456789''"
  "json_dumps example_env j = ''{}''"
  "strftime example_env t = str_int t"
  "existing example_env rows = rows"
  "before_date example_env rows usr d =
     filter (\<lambda>r. participant r = uid usr \<and> date_of_measurement r \<le> d) rows"
  by (simp_all add: example_env_def)

lemma alice_fields:
  "uid alice = 1" "weight_unit alice = ''kg''" "special_code alice = ''A1''"
  by (simp_all add: alice_def)

lemma example_weighin_valid:
  "WeightSerializer_is_valid example_env [] alice
     \<lparr>wr_date_of_measurement = Some 3, wr_weight = Some 80\<rparr> =
   Inr \<lparr>wv_date_of_measurement = Some 3, wv_user = alice, wv_weight_unit = ''kg'',
        wv_weight = 80, wv_verified = None, wv_method = None, wv_participant_id = None\<rparr>"
  by (simp add: WeightSerializer_is_valid_def WeightSerializer_fields_def
        WeightSerializer_validate_def DateField_def raising_def example_env_fields alice_fields)

text \<open>The theorem on a request dated day 3, handled on day 5.\<close>

theorem self_reported_date_is_today_witness:
  "(\<exists>m. CreateWeighinAPIView_post example_env 5 empty_world alice (Some ''self-reported'')
          \<lparr>wr_date_of_measurement = Some 3, wr_weight = Some 80\<rparr> =
        (empty_world\<lparr>weights := [m], next_pk := 2\<rparr>, Inr (Response 200 (OfInstance m)))
      \<and> date_of_measurement m = 5)
   \<and> (\<exists>m. CreateWeighinAPIView_post example_env 5 empty_world alice (Some ''verified'')
          \<lparr>wr_date_of_measurement = Some 3, wr_weight = Some 80\<rparr> =
        (empty_world\<lparr>weights := [m], next_pk := 2\<rparr>, Inr (Response 200 (OfInstance m)))
      \<and> date_of_measurement m = 3)"
proof -
  have v: "WeightSerializer_is_valid example_env (weights empty_world) alice
     \<lparr>wr_date_of_measurement = Some 3, wr_weight = Some 80\<rparr> =
   Inr \<lparr>wv_date_of_measurement = Some 3, wv_user = alice, wv_weight_unit = ''kg'',
        wv_weight = 80, wv_verified = None, wv_method = None, wv_participant_id = None\<rparr>"
    using example_weighin_valid by (simp add: empty_world_def)
  show ?thesis
    using self_reported_date_is_today [OF v, of 5] by (simp add: empty_world_def numeral_2_eq_2)
qed


subsection \<open>Ownership\<close>

lemma find_pk:
  "distinct (map pk rows) \<Longrightarrow> obj \<in> set rows \<Longrightarrow> find (\<lambda>r. pk r = pk obj) rows = Some obj"
  by (induction rows) force+

lemma get_object_denied:
  assumes "distinct (map pk rows)" and "obj \<in> set rows" and "participant obj \<noteq> uid usr"
  shows "get_object rows usr (pk obj) = Inl PermissionDenied"
  using find_pk [OF assms(1,2)] assms(3) by (simp add: get_object_def BelongsToUser_def)

text \<open>
  Claim C1. A measurement owned by another participant is never in the list
  \<^verbatim>\<open>get_queryset\<close> returns; and where primary keys are unique, updating or deleting it
  ends in \<^verbatim>\<open>PermissionDenied\<close> with the store unchanged, whatever the body of the request
  and whatever the validators would say, so before the serializer runs.
\<close>

theorem never_another_participants_measurement:
  assumes "participant obj \<noteq> uid usr"
  shows "obj \<notin> set (RetrieveWeighinAPIView_get_queryset e rows usr)
       \<and> (distinct (map pk (weights w)) \<longrightarrow> obj \<in> set (weights w) \<longrightarrow>
            UpdateWeight_update e w usr (pk obj) partial rq = (w, Inl PermissionDenied)
          \<and> DeleteWeightAPIView_destroy w usr (pk obj) = (w, Inl PermissionDenied))"
proof (intro conjI impI)
  show "obj \<notin> set (RetrieveWeighinAPIView_get_queryset e rows usr)"
    using assms by (auto simp: RetrieveWeighinAPIView_get_queryset_def order_by_desc_def)
next
  assume "distinct (map pk (weights w))" "obj \<in> set (weights w)"
  then have "get_object (weights w) usr (pk obj) = Inl PermissionDenied"
    using assms by (rule get_object_denied)
  then show "UpdateWeight_update e w usr (pk obj) partial rq = (w, Inl PermissionDenied)"
    and "DeleteWeightAPIView_destroy w usr (pk obj) = (w, Inl PermissionDenied)"
    by (simp_all add: UpdateWeight_update_def DeleteWeightAPIView_destroy_def)
qed

text \<open>The theorem for alice and a measurement of participant 2.\<close>

theorem never_another_participants_measurement_witness:
  "participant (row 1 2 3 80 0) \<noteq> uid alice
   \<and> row 1 2 3 80 0 \<notin> set (RetrieveWeighinAPIView_get_queryset example_env
        [row 1 2 3 80 0, row 2 1 4 70 0] alice)
   \<and> distinct (map pk [row 1 2 3 80 0, row 2 1 4 70 0])
   \<and> row 1 2 3 80 0 \<in> set [row 1 2 3 80 0, row 2 1 4 70 0]
   \<and> UpdateWeight_update example_env (empty_world\<lparr>weights := [row 1 2 3 80 0, row 2 1 4 70 0]\<rparr>)
        alice 1 False
        \<lparr>up_date_of_measurement = Some 5, up_weight = Some 60, up_weight_image = None,
         up_remove_image = None\<rparr>
       = (empty_world\<lparr>weights := [row 1 2 3 80 0, row 2 1 4 70 0]\<rparr>, Inl PermissionDenied)
   \<and> DeleteWeightAPIView_destroy (empty_world\<lparr>weights := [row 1 2 3 80 0, row 2 1 4 70 0]\<rparr>)
        alice 1
       = (empty_world\<lparr>weights := [row 1 2 3 80 0, row 2 1 4 70 0]\<rparr>, Inl PermissionDenied)"
proof -
  have a: "participant (row 1 2 3 80 0) \<noteq> uid alice"
    by (simp add: row_def alice_def)
  show ?thesis
    using a never_another_participants_measurement [OF a, of example_env
        "[row 1 2 3 80 0, row 2 1 4 70 0]"
        "empty_world\<lparr>weights := [row 1 2 3 80 0, row 2 1 4 70 0]\<rparr>" False
        "\<lparr>up_date_of_measurement = Some 5, up_weight = Some 60, up_weight_image = None,
         up_remove_image = None\<rparr>"]
    by (simp add: row_def)
qed


subsection \<open>The weigh-in type\<close>

lemma validate_weigh_in_type_Inl:
  "validate_weigh_in_type ty = Inl err \<Longrightarrow> \<exists>m. err = ValidationError m"
  by (auto simp: validate_weigh_in_type_def split: if_splits)

lemma validate_weigh_in_type_rejects:
  assumes "ty \<noteq> Some ''self-reported''" and "ty \<noteq> Some ''verified''"
  shows "\<exists>m. validate_weigh_in_type ty = Inl (ValidationError m)"
  using assms by (cases ty) (auto simp: validate_weigh_in_type_def)

lemma unverified_fields_Inl:
  "UnverifiedWeightSerializer_fields e rows rq = Inl err \<Longrightarrow> \<exists>m. err = ValidationError m"
  unfolding UnverifiedWeightSerializer_fields_def
  by (auto dest!: and_then_Inl dest: required_Inl DateField_Inl)

lemma unverified_fields_Inr:
  "UnverifiedWeightSerializer_fields e rows rq = Inr (d, wt) \<Longrightarrow>
     ur_weight rq = Some wt \<and> ur_date_of_measurement rq = Some d"
  unfolding UnverifiedWeightSerializer_fields_def
  by (auto dest!: and_then_Inr DateField_Inr simp: required_def split: option.splits)

text \<open>
  \<^verbatim>\<open>CreateUnverifiedWeighinAPIView\<close> rejects a missing or unknown weigh-in type with a 400.
\<close>

lemma unverified_endpoint_checks_weigh_in_type:
  assumes "ty \<noteq> Some ''self-reported''" and "ty \<noteq> Some ''verified''"
  shows "\<exists>err. CreateUnverifiedWeighinAPIView_post e w usr ty rq = (w, Inl err)
           \<and> status_code err = 400"
proof (cases "UnverifiedWeightSerializer_fields e (weights w) rq")
  case (Inl err)
  then show ?thesis
    using unverified_fields_Inl [OF Inl]
    by (auto simp: CreateUnverifiedWeighinAPIView_post_def UnverifiedWeightSerializer_is_valid_def)
next
  case (Inr p)
  obtain d wt where p: "p = (d, wt)" by (cases p)
  have wt: "ur_weight rq = Some wt"
    using unverified_fields_Inr Inr p by blast
  obtain m where "validate_weigh_in_type ty = Inl (ValidationError m)"
    using validate_weigh_in_type_rejects [OF assms] by blast
  then show ?thesis
    using Inr p wt
    by (simp add: CreateUnverifiedWeighinAPIView_post_def UnverifiedWeightSerializer_is_valid_def
        UnverifiedWeightSerializer_validate_def)
qed

text \<open>
  \<^verbatim>\<open>CreateWeighinAPIView.post\<close> has no branch for a weigh-in type that is neither
  \<^verbatim>\<open>self-reported\<close> nor \<^verbatim>\<open>verified\<close>: whenever the body passes validation, nothing is
  saved and rendering \<^verbatim>\<open>weighin_serializer.data\<close> from the validated dictionary raises,
  which is a 500.
\<close>

lemma weighin_type_unchecked:
  assumes "ty \<noteq> Some ''self-reported''" and "ty \<noteq> Some ''verified''"
    and "WeightSerializer_is_valid e (weights w) usr rq = Inr vd"
  shows "\<exists>err. CreateWeighinAPIView_post e today w usr ty rq = (w, Inl err)
           \<and> status_code err = 500"
  using assms WeightSerializer_data_validated [of e vd]
  by (auto simp: CreateWeighinAPIView_post_def)

text \<open>
  Claim C4. With the weigh-in type \<^verbatim>\<open>bogus\<close>, and with the parameter absent, a valid body
  sent to \<^verbatim>\<open>CreateWeighinAPIView\<close> is not rejected with a 4xx and a message: the view
  saves nothing, and \<^verbatim>\<open>Response(weighin_serializer.data)\<close> renders the validated
  dictionary, where \<^verbatim>\<open>get_weight\<close> calls \<^verbatim>\<open>instance.weight()\<close> on a dictionary. The
  request ends in an uncaught \<^verbatim>\<open>AttributeError\<close>, a 500 without a message.
\<close>

theorem weighin_type_unchecked_by_CreateWeighinAPIView:
  "CreateWeighinAPIView_post example_env 5 empty_world alice (Some ''bogus'')
       \<lparr>wr_date_of_measurement = Some 3, wr_weight = Some 80\<rparr> =
     (empty_world, Inl AttributeError)
   \<and> CreateWeighinAPIView_post example_env 5 empty_world alice None
       \<lparr>wr_date_of_measurement = Some 3, wr_weight = Some 80\<rparr> =
     (empty_world, Inl AttributeError)
   \<and> status_code AttributeError = 500"
  using example_weighin_valid
  by (simp add: CreateWeighinAPIView_post_def empty_world_def WeightSerializer_data_def
      get_attribute_date_of_measurement_def get_weight_def)

subsection \<open>The format of the image\<close>

lemma splitext_proof_gif: "splitext ''proof.gif'' = (''proof'', ''.gif'')"
  by code_simp

lemma lower_strip_gif: "lower (strip ''gif'') = ''gif''"
  by code_simp

text \<open>
  Claim C5. At creation the extension of \<^verbatim>\<open>weight_image\<close> is not checked: the unverified
  weigh-in with the image \<^verbatim>\<open>proof.gif\<close> is accepted and the measurement is stored with that
  file, although the check of the update path refuses the same name.
\<close>

theorem unsupported_image_stored_at_creation:
  "(\<exists>m d. CreateUnverifiedWeighinAPIView_post example_env empty_world alice
            (Some ''self-reported'')
            \<lparr>ur_date_of_measurement = Some 3, ur_weight = Some 80,
             ur_weight_image = Some ''proof.gif''\<rparr> =
          (empty_world\<lparr>weights := [m], next_pk := 2\<rparr>, Inr (Response 200 d))
        \<and> verifier_file m = Some ''proof.gif'')
   \<and> image_has_correct_format (Some ''proof.gif'') =
        Inl (ValidationError ''Images must be in PNG or JPG or JPEG format'')"
proof
  have v: "UnverifiedWeightSerializer_is_valid example_env [] alice (Some ''self-reported'')
            \<lparr>ur_date_of_measurement = Some 3, ur_weight = Some 80,
             ur_weight_image = Some ''proof.gif''\<rparr> =
           Inr \<lparr>uv_date_of_measurement = 3, uv_weight = 80, uv_weight_unit = ''kg''\<rparr>"
    by (simp add: UnverifiedWeightSerializer_is_valid_def UnverifiedWeightSerializer_fields_def
        UnverifiedWeightSerializer_validate_def validate_weigh_in_type_def required_def
        DateField_def raising_def example_env_fields alice_fields)
  show "\<exists>m d. CreateUnverifiedWeighinAPIView_post example_env empty_world alice
            (Some ''self-reported'')
            \<lparr>ur_date_of_measurement = Some 3, ur_weight = Some 80,
             ur_weight_image = Some ''proof.gif''\<rparr> =
          (empty_world\<lparr>weights := [m], next_pk := 2\<rparr>, Inr (Response 200 d))
        \<and> verifier_file m = Some ''proof.gif''"
    using v
    by (simp add: CreateUnverifiedWeighinAPIView_post_def empty_world_def
        UnverifiedWeightSerializer_save_def objects_create_def
        UnverifiedWeightSerializer_to_representation_def order_by_def order_by_desc_def
        example_env_fields alice_fields numeral_2_eq_2 Let_def)
next
  show "image_has_correct_format (Some ''proof.gif'') =
        Inl (ValidationError ''Images must be in PNG or JPG or JPEG format'')"
    by (simp add: image_has_correct_format_def splitext_proof_gif lower_strip_gif)
qed

text \<open>The update path: a refused image ends the request with the store unchanged.\<close>

lemma update_checks_image_format:
  assumes "get_object (weights w) usr k = Inr inst"
    and "UpdateWeightSerializer_fields e (weights w) partial rq = Inr (d, Some wt)"
    and "image_has_correct_format (up_weight_image rq) = Inl err"
  shows "UpdateWeight_update e w usr k partial rq = (w, Inl err)"
  using assms
  by (simp add: UpdateWeight_update_def UpdateWeightSerializer_is_valid_def
      UpdateWeightSerializer_validate_def)

subsection \<open>The delta between the two most recent entries\<close>

lemma distinct_map_sort_key:
  "distinct (map f (sort_key g xs)) \<longleftrightarrow> distinct (map f xs)"
proof -
  have "mset (map f (sort_key g xs)) = mset (map f xs)"
    by simp
  then show ?thesis
    by (rule mset_eq_imp_distinct_iff)
qed

lemma two_most_recent:
  assumes len: "1 < length qs" and dist: "distinct (map created qs)"
  shows "\<exists>new old rest.
           order_by_desc created (order_by date_of_measurement qs) = new # old # rest
         \<and> new \<in> set qs \<and> old \<in> set qs \<and> created old < created new
         \<and> (\<forall>x \<in> set qs. x \<noteq> new \<longrightarrow> x \<noteq> old \<longrightarrow> created x < created old)"
proof -
  define ys where "ys = sort_key created (sort_key date_of_measurement qs)"
  have set_ys: "set ys = set qs" and len_ys: "length ys = length qs"
    by (simp_all add: ys_def)
  have sorted_ys: "sorted (map created ys)"
    by (simp add: ys_def)
  have dist_ys: "distinct (map created ys)"
    using dist by (simp add: ys_def distinct_map_sort_key)
  obtain new old rest where r: "rev ys = new # old # rest"
    using len len_ys by (cases "rev ys" rule: remdups_adj.cases) auto
  then have ys: "ys = rev rest @ [old, new]"
    by (metis append_Cons append_Nil append_assoc rev.simps(2) rev_rev_ident)
  have le: "created old \<le> created new" "\<forall>x \<in> set rest. created x \<le> created old"
    using sorted_ys unfolding ys by (auto simp: sorted_append)
  have ne: "created old \<noteq> created new" "\<forall>x \<in> set rest. created x \<noteq> created old"
    using dist_ys unfolding ys by (auto simp: image_iff)
  have mem: "set qs = {new, old} \<union> set rest"
    using set_ys unfolding ys by auto
  have "order_by_desc created (order_by date_of_measurement qs) = new # old # rest"
    using r by (simp add: order_by_desc_def order_by_def ys_def)
  moreover have "created old < created new"
    using le(1) ne(1) by simp
  moreover have "\<forall>x \<in> set qs. x \<noteq> new \<longrightarrow> x \<noteq> old \<longrightarrow> created x < created old"
    using le(2) ne(2) mem by fastforce
  ultimately show ?thesis
    using mem by blast
qed

lemma to_representation_many:
  assumes "1 < length (before_date e rows usr d)"
    and "order_by_desc created (order_by date_of_measurement (before_date e rows usr d))
           = new # old # rest"
  shows "UnverifiedWeightSerializer_to_representation e rows usr d =
     Inr \<lparr>first_entry = False,
          weight_difference =
            \<bar>(if weight_unit usr = ''kg'' then weight_kilograms old else weight_in_pounds old)
             - (if weight_unit usr = ''kg'' then weight_kilograms new else weight_in_pounds new)\<bar>,
          lost_weight =
            (if (if weight_unit usr = ''kg'' then weight_kilograms new else weight_in_pounds new)
                  \<le> (if weight_unit usr = ''kg'' then weight_kilograms old
                       else weight_in_pounds old)
             then Str ''lost'' else Str ''gained''),
          delta_weight_unit = weight_unit usr\<rparr>"
  using assms
  by (simp add: UnverifiedWeightSerializer_to_representation_def Let_def order_by_def)

lemma to_representation_few:
  assumes "length (before_date e rows usr d) \<le> 1"
  shows "UnverifiedWeightSerializer_to_representation e rows usr d =
     Inr \<lparr>first_entry = True, weight_difference = 0, lost_weight = Num 0,
          delta_weight_unit = weight_unit usr\<rparr>"
  using assms
  by (simp add: UnverifiedWeightSerializer_to_representation_def Let_def order_by_def)

lemma order_two:
  assumes "qs = [a, b] \<or> qs = [b, a]" and "created a < created b"
  shows "order_by_desc created (order_by date_of_measurement qs) = [b, a]"
  using assms by (auto simp: order_by_desc_def order_by_def)

text \<open>
  Claim C2. \<^verbatim>\<open>to_representation\<close>, over the rows \<^verbatim>\<open>before_date\<close> returns for the user
  and the date. With the unit kg and exactly two rows, 100 kg created first and 95 kg
  created second, the report is \<^verbatim>\<open>first_entry=False\<close>, \<^verbatim>\<open>lost\<close>, difference 5. With exactly
  one row it is \<^verbatim>\<open>first_entry=True\<close>, difference 0. With more than one row and distinct
  creation times, the two rows compared are the most recently created and the most
  recently created of the others, in the unit of the user.
\<close>

theorem delta_of_the_two_most_recent:
  "(weight_unit usr = ''kg'' \<longrightarrow>
      (before_date e rows usr d = [a, b] \<or> before_date e rows usr d = [b, a]) \<longrightarrow>
      created a < created b \<longrightarrow> weight_kilograms a = 100 \<longrightarrow> weight_kilograms b = 95 \<longrightarrow>
      UnverifiedWeightSerializer_to_representation e rows usr d =
        Inr \<lparr>first_entry = False, weight_difference = 5, lost_weight = Str ''lost'',
             delta_weight_unit = ''kg''\<rparr>)
   \<and> (length (before_date e rows usr d) = 1 \<longrightarrow>
      UnverifiedWeightSerializer_to_representation e rows usr d =
        Inr \<lparr>first_entry = True, weight_difference = 0, lost_weight = Num 0,
             delta_weight_unit = weight_unit usr\<rparr>)
   \<and> (1 < length (before_date e rows usr d) \<longrightarrow>
      distinct (map created (before_date e rows usr d)) \<longrightarrow>
      (\<exists>new old.
          new \<in> set (before_date e rows usr d) \<and> old \<in> set (before_date e rows usr d)
        \<and> created old < created new
        \<and> (\<forall>x \<in> set (before_date e rows usr d).
              x \<noteq> new \<longrightarrow> x \<noteq> old \<longrightarrow> created x < created old)
        \<and> UnverifiedWeightSerializer_to_representation e rows usr d =
            Inr \<lparr>first_entry = False,
                 weight_difference =
                   \<bar>(if weight_unit usr = ''kg'' then weight_kilograms old
                      else weight_in_pounds old)
                    - (if weight_unit usr = ''kg'' then weight_kilograms new
                       else weight_in_pounds new)\<bar>,
                 lost_weight =
                   (if (if weight_unit usr = ''kg'' then weight_kilograms new
                        else weight_in_pounds new)
                       \<le> (if weight_unit usr = ''kg'' then weight_kilograms old
                            else weight_in_pounds old)
                    then Str ''lost'' else Str ''gained''),
                 delta_weight_unit = weight_unit usr\<rparr>))"
proof (intro conjI impI)
  assume kg: "weight_unit usr = ''kg''"
    and qs: "before_date e rows usr d = [a, b] \<or> before_date e rows usr d = [b, a]"
    and c: "created a < created b"
    and w: "weight_kilograms a = 100" "weight_kilograms b = 95"
  have len: "1 < length (before_date e rows usr d)"
    using qs by auto
  show "UnverifiedWeightSerializer_to_representation e rows usr d =
        Inr \<lparr>first_entry = False, weight_difference = 5, lost_weight = Str ''lost'',
             delta_weight_unit = ''kg''\<rparr>"
    using to_representation_many [OF len order_two [OF qs c]] kg w by simp
next
  assume "length (before_date e rows usr d) = 1"
  then show "UnverifiedWeightSerializer_to_representation e rows usr d =
        Inr \<lparr>first_entry = True, weight_difference = 0, lost_weight = Num 0,
             delta_weight_unit = weight_unit usr\<rparr>"
    by (simp add: to_representation_few)
next
  assume len: "1 < length (before_date e rows usr d)"
    and dist: "distinct (map created (before_date e rows usr d))"
  from two_most_recent [OF len dist] obtain new old rest where
    o: "order_by_desc created (order_by date_of_measurement (before_date e rows usr d))
          = new # old # rest"
    and m: "new \<in> set (before_date e rows usr d)" "old \<in> set (before_date e rows usr d)"
      "created old < created new"
      "\<forall>x \<in> set (before_date e rows usr d).
          x \<noteq> new \<longrightarrow> x \<noteq> old \<longrightarrow> created x < created old"
    by blast
  show "\<exists>new old.
          new \<in> set (before_date e rows usr d) \<and> old \<in> set (before_date e rows usr d)
        \<and> created old < created new
        \<and> (\<forall>x \<in> set (before_date e rows usr d).
              x \<noteq> new \<longrightarrow> x \<noteq> old \<longrightarrow> created x < created old)
        \<and> UnverifiedWeightSerializer_to_representation e rows usr d =
            Inr \<lparr>first_entry = False,
                 weight_difference =
                   \<bar>(if weight_unit usr = ''kg'' then weight_kilograms old
                      else weight_in_pounds old)
                    - (if weight_unit usr = ''kg'' then weight_kilograms new
                       else weight_in_pounds new)\<bar>,
                 lost_weight =
                   (if (if weight_unit usr = ''kg'' then weight_kilograms new
                        else weight_in_pounds new)
                       \<le> (if weight_unit usr = ''kg'' then weight_kilograms old
                            else weight_in_pounds old)
                    then Str ''lost'' else Str ''gained''),
                 delta_weight_unit = weight_unit usr\<rparr>"
    using to_representation_many [OF len o] m by blast
qed


text \<open>The theorem on a store of two rows of alice, and on a store of one.\<close>

theorem delta_of_the_two_most_recent_witness:
  "weight_unit alice = ''kg''
   \<and> before_date example_env [row 1 1 1 100 10, row 2 1 2 95 20] alice 2
        = [row 1 1 1 100 10, row 2 1 2 95 20]
   \<and> created (row 1 1 1 100 10) < created (row 2 1 2 95 20)
   \<and> weight_kilograms (row 1 1 1 100 10) = 100 \<and> weight_kilograms (row 2 1 2 95 20) = 95
   \<and> 1 < length (before_date example_env [row 1 1 1 100 10, row 2 1 2 95 20] alice 2)
   \<and> distinct (map created (before_date example_env [row 1 1 1 100 10, row 2 1 2 95 20] alice 2))
   \<and> UnverifiedWeightSerializer_to_representation example_env
        [row 1 1 1 100 10, row 2 1 2 95 20] alice 2 =
        Inr \<lparr>first_entry = False, weight_difference = 5, lost_weight = Str ''lost'',
             delta_weight_unit = ''kg''\<rparr>
   \<and> length (before_date example_env [row 1 1 1 100 10] alice 2) = 1
   \<and> UnverifiedWeightSerializer_to_representation example_env [row 1 1 1 100 10] alice 2 =
        Inr \<lparr>first_entry = True, weight_difference = 0, lost_weight = Num 0,
             delta_weight_unit = ''kg''\<rparr>"
  using delta_of_the_two_most_recent [of alice example_env
          "[row 1 1 1 100 10, row 2 1 2 95 20]" 2 "row 1 1 1 100 10" "row 2 1 2 95 20"]
        delta_of_the_two_most_recent [of alice example_env
          "[row 1 1 1 100 10]" 2 "row 1 1 1 100 10" "row 2 1 2 95 20"]
  by (simp add: example_env_fields alice_fields row_def)

subsection \<open>The stored weights\<close>

lemma merge_kwargs_keeps:
  "wv_weight (merge_kwargs vd kw) = wv_weight vd"
  "wv_weight_unit (merge_kwargs vd kw) = wv_weight_unit vd"
  by (simp_all add: merge_kwargs_def)

lemma WeightSerializer_save_Inr:
  assumes "WeightSerializer_save e w vd kw = (w', Inr m)"
  shows "(weight_kilograms m, weight_in_pounds m) =
           convert_weight_to_kgs_and_lbs e (wv_weight_unit vd) (wv_weight vd)
         \<and> weights w' = weights w @ [m]"
  using assms
  by (auto simp: WeightSerializer_save_def WeightSerializer_create_def objects_create_def
        merge_kwargs_keeps Let_def
      split: prod.splits option.splits)

lemma create_weighin_conversion:
  assumes "CreateWeighinAPIView_post e today w usr ty rq = (w', Inr (Response s (OfInstance m)))"
  shows "\<exists>vd. WeightSerializer_is_valid e (weights w) usr rq = Inr vd
           \<and> (weight_kilograms m, weight_in_pounds m) =
               convert_weight_to_kgs_and_lbs e (weight_unit usr) (wv_weight vd)
           \<and> weights w' = weights w @ [m]"
proof (cases "WeightSerializer_is_valid e (weights w) usr rq")
  case (Inl err)
  then show ?thesis
    using assms by (simp add: CreateWeighinAPIView_post_def)
next
  case (Inr vd)
  have u: "wv_weight_unit vd = weight_unit usr"
    using WeightSerializer_is_valid_date(3) [OF Inr] .
  from assms Inr obtain kw where "WeightSerializer_save e w vd kw = (w', Inr m)"
    by (auto simp: CreateWeighinAPIView_post_def split: if_splits prod.splits sum.splits)
  from WeightSerializer_save_Inr [OF this] show ?thesis
    using Inr u by simp
qed

lemma video_validate_Inr:
  "VideoVerificationSerializer_validate e rows usr data = Inr vd \<Longrightarrow>
     vv_weight_unit vd = weight_unit usr"
  by (auto simp: VideoVerificationSerializer_validate_def Let_def split: sum.splits if_splits)

lemma instance_save_mem:
  assumes "inst \<in> set (weights w)" and "pk inst = pk m"
  shows "m\<lparr>modified := db_now w\<rparr> \<in> set (weights (instance_save w m))"
proof -
  have "(\<lambda>r. if pk r = pk m then m\<lparr>modified := db_now w\<rparr> else r) inst
          \<in> (\<lambda>r. if pk r = pk m then m\<lparr>modified := db_now w\<rparr> else r) ` set (weights w)"
    using assms(1) by (rule imageI)
  then show ?thesis
    using assms(2) by (simp add: instance_save_def)
qed

lemma video_create_instance:
  "weight_kilograms (snd (VideoVerificationSerializer_create e w vd)) =
     fst (convert_weight_to_kgs_and_lbs e (vv_weight_unit vd) (vv_weight vd))"
  "weight_in_pounds (snd (VideoVerificationSerializer_create e w vd)) =
     snd (convert_weight_to_kgs_and_lbs e (vv_weight_unit vd) (vv_weight vd))"
  "pk (snd (VideoVerificationSerializer_create e w vd)) = next_pk w"
  by (simp_all add: VideoVerificationSerializer_create_def objects_create_def Let_def
      split: prod.splits)

lemma video_create_store:
  "(snd (VideoVerificationSerializer_create e w vd))\<lparr>modified := db_now w\<rparr>
     \<in> set (weights (fst (VideoVerificationSerializer_create e w vd)))"
  by (simp add: VideoVerificationSerializer_create_def objects_create_def instance_save_def
      Let_def split: prod.splits)

lemma video_create_conversion:
  assumes "VideoVerificationSerializer_create e w vd = (w', m)"
  shows "(weight_kilograms m, weight_in_pounds m) =
        convert_weight_to_kgs_and_lbs e (vv_weight_unit vd) (vv_weight vd)
     \<and> (\<exists>r \<in> set (weights w'). pk r = pk m \<and> weight_kilograms r = weight_kilograms m
            \<and> weight_in_pounds r = weight_in_pounds m)"
proof
  show "(weight_kilograms m, weight_in_pounds m) =
        convert_weight_to_kgs_and_lbs e (vv_weight_unit vd) (vv_weight vd)"
    using video_create_instance(1,2) [where e = e and w = w and vd = vd] assms
    by (simp add: prod_eq_iff)
next
  have "m\<lparr>modified := db_now w\<rparr> \<in> set (weights w')"
    using video_create_store [where e = e and w = w and vd = vd] assms by simp
  then show "\<exists>r \<in> set (weights w'). pk r = pk m \<and> weight_kilograms r = weight_kilograms m
            \<and> weight_in_pounds r = weight_in_pounds m"
    by (intro bexI [of _ "m\<lparr>modified := db_now w\<rparr>"]) simp_all
qed

lemma video_conversion:
  assumes "ApiVideoVerificationView_post e w usr rq = (w', Inr m)"
  shows "\<exists>vd. VideoVerificationSerializer_is_valid e (weights w) usr rq = Inr vd
           \<and> (weight_kilograms m, weight_in_pounds m) =
               convert_weight_to_kgs_and_lbs e (weight_unit usr) (vv_weight vd)
           \<and> (\<exists>r \<in> set (weights w'). pk r = pk m \<and> weight_kilograms r = weight_kilograms m
                 \<and> weight_in_pounds r = weight_in_pounds m)"
proof (cases "VideoVerificationSerializer_is_valid e (weights w) usr rq")
  case (Inl err)
  then show ?thesis
    using assms by (simp add: ApiVideoVerificationView_post_def)
next
  case (Inr vd)
  have u: "vv_weight_unit vd = weight_unit usr"
    using Inr
    by (auto simp: VideoVerificationSerializer_is_valid_def split: sum.splits
        dest: video_validate_Inr)
  have "VideoVerificationSerializer_create e w vd = (w', m)"
    using assms Inr by (simp add: ApiVideoVerificationView_post_def split: prod.splits)
  from video_create_conversion [OF this] show ?thesis
    using Inr u by simp
qed

lemma unverified_conversion:
  assumes "CreateUnverifiedWeighinAPIView_post e w usr ty rq = (w', Inr resp)"
  shows "\<exists>vd m. UnverifiedWeightSerializer_is_valid e (weights w) usr ty rq = Inr vd
           \<and> (weight_kilograms m, weight_in_pounds m) =
               convert_weight_to_kgs_and_lbs e (weight_unit usr) (uv_weight vd)
           \<and> weights w' = weights w @ [m]"
proof (cases "UnverifiedWeightSerializer_is_valid e (weights w) usr ty rq")
  case (Inl err)
  then show ?thesis
    using assms by (simp add: CreateUnverifiedWeighinAPIView_post_def)
next
  case (Inr vd)
  have u: "uv_weight_unit vd = weight_unit usr"
    using Inr
    by (auto simp: UnverifiedWeightSerializer_is_valid_def
          UnverifiedWeightSerializer_validate_def
        split: sum.splits option.splits prod.splits)
  obtain w1 m where s: "UnverifiedWeightSerializer_save e w usr vd (ur_weight_image rq) = (w1, m)"
    by (cases "UnverifiedWeightSerializer_save e w usr vd (ur_weight_image rq)")
  then have w1: "w1 = w'"
    using assms Inr
    by (auto simp: CreateUnverifiedWeighinAPIView_post_def split: sum.splits)
  have "(weight_kilograms m, weight_in_pounds m) =
          convert_weight_to_kgs_and_lbs e (uv_weight_unit vd) (uv_weight vd)
        \<and> weights w1 = weights w @ [m]"
    using s
    by (auto simp: UnverifiedWeightSerializer_save_def objects_create_def Let_def
        split: prod.splits)
  then show ?thesis
    using Inr u w1 by auto
qed

lemma get_object_Inr:
  "get_object rows usr k = Inr obj \<Longrightarrow> obj \<in> set rows \<and> pk obj = k"
  by (auto simp: get_object_def find_Some_iff split: option.splits if_splits)

lemma update_serializer_instance:
  assumes "UpdateWeightSerializer_update e w inst vd img = (w', Inr m)"
  shows "w' = instance_save w m" and "pk m = pk inst"
    and "(weight_kilograms m, weight_in_pounds m) =
           convert_weight_to_kgs_and_lbs e (uq_weight_unit vd) (uq_weight vd)"
  using assms
  by (auto simp: UpdateWeightSerializer_update_def Let_def
      split: prod.splits option.splits if_splits)

lemma update_serializer_conversion:
  assumes "UpdateWeightSerializer_update e w inst vd img = (w', Inr m)"
    and "inst \<in> set (weights w)"
  shows "(weight_kilograms m, weight_in_pounds m) =
           convert_weight_to_kgs_and_lbs e (uq_weight_unit vd) (uq_weight vd)
       \<and> (\<exists>r \<in> set (weights w'). pk r = pk inst \<and> weight_kilograms r = weight_kilograms m
              \<and> weight_in_pounds r = weight_in_pounds m)"
proof
  show "(weight_kilograms m, weight_in_pounds m) =
           convert_weight_to_kgs_and_lbs e (uq_weight_unit vd) (uq_weight vd)"
    using update_serializer_instance(3) [OF assms(1)] .
next
  have "m\<lparr>modified := db_now w\<rparr> \<in> set (weights w')"
    using instance_save_mem [OF assms(2), of m] update_serializer_instance(1,2) [OF assms(1)]
    by simp
  then show "\<exists>r \<in> set (weights w'). pk r = pk inst \<and> weight_kilograms r = weight_kilograms m
              \<and> weight_in_pounds r = weight_in_pounds m"
    using update_serializer_instance(2) [OF assms(1)]
    by (intro bexI [of _ "m\<lparr>modified := db_now w\<rparr>"]) simp_all
qed

lemma update_conversion:
  assumes "UpdateWeight_update e w usr k partial rq = (w', Inr m)"
  shows "\<exists>vd. UpdateWeightSerializer_is_valid e (weights w) usr partial rq = Inr vd
           \<and> (weight_kilograms m, weight_in_pounds m) =
               convert_weight_to_kgs_and_lbs e (weight_unit usr) (uq_weight vd)
           \<and> (\<exists>r \<in> set (weights w'). pk r = k \<and> weight_kilograms r = weight_kilograms m
                 \<and> weight_in_pounds r = weight_in_pounds m)"
proof -
  obtain inst where g: "get_object (weights w) usr k = Inr inst"
    using assms by (cases "get_object (weights w) usr k") (simp_all add: UpdateWeight_update_def)
  obtain vd where v: "UpdateWeightSerializer_is_valid e (weights w) usr partial rq = Inr vd"
    using assms g
    by (cases "UpdateWeightSerializer_is_valid e (weights w) usr partial rq")
       (simp_all add: UpdateWeight_update_def)
  have u: "uq_weight_unit vd = weight_unit usr"
    using v
    by (auto simp: UpdateWeightSerializer_is_valid_def UpdateWeightSerializer_validate_def
        split: sum.splits option.splits prod.splits)
  have "UpdateWeightSerializer_update e w inst vd (up_weight_image rq) = (w', Inr m)"
    using assms g v by (simp add: UpdateWeight_update_def)
  from update_serializer_conversion [OF this] get_object_Inr [OF g] show ?thesis
    using v u by auto
qed


text \<open>
  Claim C8. In each of the four operations that write a weight (the two create views, the
  video verification and the update), the kilograms and the pounds of the written row
  are the two components of one call of \<^verbatim>\<open>convert_weight_to_kgs_and_lbs\<close>, on the unit of
  the user and the weight of the validated data.
\<close>

theorem stored_weights_are_one_conversion:
  "(CreateWeighinAPIView_post e today w usr ty rq1 = (w1, Inr (Response s (OfInstance m1))) \<longrightarrow>
      (\<exists>vd. WeightSerializer_is_valid e (weights w) usr rq1 = Inr vd
         \<and> (weight_kilograms m1, weight_in_pounds m1) =
             convert_weight_to_kgs_and_lbs e (weight_unit usr) (wv_weight vd)
         \<and> weights w1 = weights w @ [m1]))
   \<and> (ApiVideoVerificationView_post e w usr rq2 = (w2, Inr m2) \<longrightarrow>
      (\<exists>vd. VideoVerificationSerializer_is_valid e (weights w) usr rq2 = Inr vd
         \<and> (weight_kilograms m2, weight_in_pounds m2) =
             convert_weight_to_kgs_and_lbs e (weight_unit usr) (vv_weight vd)
         \<and> (\<exists>r \<in> set (weights w2). pk r = pk m2 \<and> weight_kilograms r = weight_kilograms m2
               \<and> weight_in_pounds r = weight_in_pounds m2)))
   \<and> (CreateUnverifiedWeighinAPIView_post e w usr ty rq3 = (w3, Inr resp) \<longrightarrow>
      (\<exists>vd m3. UnverifiedWeightSerializer_is_valid e (weights w) usr ty rq3 = Inr vd
         \<and> (weight_kilograms m3, weight_in_pounds m3) =
             convert_weight_to_kgs_and_lbs e (weight_unit usr) (uv_weight vd)
         \<and> weights w3 = weights w @ [m3]))
   \<and> (UpdateWeight_update e w usr k partial rq4 = (w4, Inr m4) \<longrightarrow>
      (\<exists>vd. UpdateWeightSerializer_is_valid e (weights w) usr partial rq4 = Inr vd
         \<and> (weight_kilograms m4, weight_in_pounds m4) =
             convert_weight_to_kgs_and_lbs e (weight_unit usr) (uq_weight vd)
         \<and> (\<exists>r \<in> set (weights w4). pk r = k \<and> weight_kilograms r = weight_kilograms m4
               \<and> weight_in_pounds r = weight_in_pounds m4)))"
  by (intro conjI impI create_weighin_conversion video_conversion unverified_conversion
      update_conversion)

text \<open>The four operations on concrete requests.\<close>

lemma strip_f: "strip ''f'' = ''f''"
  by code_simp

lemma len_f: "len ''f'' = 1"
  by code_simp

lemma example_create_weighin:
  "CreateWeighinAPIView_post example_env 5 empty_world alice (Some ''verified'')
       \<lparr>wr_date_of_measurement = Some 3, wr_weight = Some 80\<rparr> =
     (\<lparr>weights = [row 1 1 3 80 0], next_pk = 2, db_now = 0, congratulations = []\<rparr>,
      Inr (Response 200 (OfInstance (row 1 1 3 80 0))))"
  using example_weighin_valid
  by (simp add: CreateWeighinAPIView_post_def empty_world_def WeightSerializer_save_def
      merge_kwargs_def WeightSerializer_create_def objects_create_def example_env_fields
      alice_fields row_def numeral_2_eq_2 Let_def)

lemma example_video:
  "ApiVideoVerificationView_post example_env empty_world alice
       \<lparr>rq_weight = Some 80, rq_date = Some 3, rq_s3_file_url = Some ''f'',
        rq_video_url = None, rq_competitor_ids = None, rq_platform = None\<rparr> =
     (\<lparr>weights = [(row 1 1 3 80 0)\<lparr>verified := True, verifier_file := Some ''f''\<rparr>],
       next_pk = 2, db_now = 0, congratulations = []\<rparr>,
      Inr ((row 1 1 3 80 0)\<lparr>verified := True, verifier_file := Some ''f''\<rparr>))"
  by (simp add: ApiVideoVerificationView_post_def VideoVerificationSerializer_is_valid_def
      VideoVerificationSerializer_fields_def VideoVerificationSerializer_validate_def
      VideoVerificationSerializer_create_def required_def DateField_def raising_def
      optional_CharField_def CharField_def strip_f len_f objects_create_def instance_save_def
      empty_world_def example_env_fields alice_fields row_def numeral_2_eq_2 Let_def)

lemma example_unverified:
  "CreateUnverifiedWeighinAPIView_post example_env empty_world alice (Some ''self-reported'')
       \<lparr>ur_date_of_measurement = Some 3, ur_weight = Some 80, ur_weight_image = None\<rparr> =
     (\<lparr>weights = [row 1 1 3 80 0], next_pk = 2, db_now = 0, congratulations = []\<rparr>,
      Inr (Response 200 \<lparr>first_entry = True, weight_difference = 0, lost_weight = Num 0,
                         delta_weight_unit = ''kg''\<rparr>))"
  by (simp add: CreateUnverifiedWeighinAPIView_post_def UnverifiedWeightSerializer_is_valid_def
      UnverifiedWeightSerializer_fields_def UnverifiedWeightSerializer_validate_def
      validate_weigh_in_type_def required_def DateField_def raising_def
      UnverifiedWeightSerializer_save_def objects_create_def
      UnverifiedWeightSerializer_to_representation_def order_by_def order_by_desc_def
      empty_world_def example_env_fields alice_fields row_def numeral_2_eq_2 Let_def)

lemma example_update:
  "UpdateWeight_update example_env
       \<lparr>weights = [row 1 1 3 80 0], next_pk = 2, db_now = 0, congratulations = []\<rparr>
       alice 1 False
       \<lparr>up_date_of_measurement = Some 4, up_weight = Some 70, up_weight_image = None,
        up_remove_image = None\<rparr> =
     (\<lparr>weights = [row 1 1 4 70 0], next_pk = 2, db_now = 0, congratulations = []\<rparr>,
      Inr (row 1 1 4 70 0))"
  by (simp add: UpdateWeight_update_def get_object_def BelongsToUser_def
      UpdateWeightSerializer_is_valid_def UpdateWeightSerializer_fields_def
      UpdateWeightSerializer_validate_def image_has_correct_format_def DateField_def
      raising_def UpdateWeightSerializer_update_def instance_save_def
      example_env_fields alice_fields row_def Let_def)

text \<open>The theorem on these four requests.\<close>

theorem stored_weights_are_one_conversion_witness:
  "CreateWeighinAPIView_post example_env 5 empty_world alice (Some ''verified'')
       \<lparr>wr_date_of_measurement = Some 3, wr_weight = Some 80\<rparr> =
     (\<lparr>weights = [row 1 1 3 80 0], next_pk = 2, db_now = 0, congratulations = []\<rparr>,
      Inr (Response 200 (OfInstance (row 1 1 3 80 0))))
   \<and> (\<exists>vd. WeightSerializer_is_valid example_env (weights empty_world) alice
              \<lparr>wr_date_of_measurement = Some 3, wr_weight = Some 80\<rparr> = Inr vd
         \<and> (weight_kilograms (row 1 1 3 80 0), weight_in_pounds (row 1 1 3 80 0)) =
             convert_weight_to_kgs_and_lbs example_env (weight_unit alice) (wv_weight vd))
   \<and> ApiVideoVerificationView_post example_env empty_world alice
       \<lparr>rq_weight = Some 80, rq_date = Some 3, rq_s3_file_url = Some ''f'',
        rq_video_url = None, rq_competitor_ids = None, rq_platform = None\<rparr> =
     (\<lparr>weights = [(row 1 1 3 80 0)\<lparr>verified := True, verifier_file := Some ''f''\<rparr>],
       next_pk = 2, db_now = 0, congratulations = []\<rparr>,
      Inr ((row 1 1 3 80 0)\<lparr>verified := True, verifier_file := Some ''f''\<rparr>))
   \<and> (\<exists>vd. VideoVerificationSerializer_is_valid example_env (weights empty_world) alice
              \<lparr>rq_weight = Some 80, rq_date = Some 3, rq_s3_file_url = Some ''f'',
               rq_video_url = None, rq_competitor_ids = None, rq_platform = None\<rparr> = Inr vd
         \<and> (weight_kilograms ((row 1 1 3 80 0)\<lparr>verified := True, verifier_file := Some ''f''\<rparr>),
             weight_in_pounds ((row 1 1 3 80 0)\<lparr>verified := True, verifier_file := Some ''f''\<rparr>)) =
             convert_weight_to_kgs_and_lbs example_env (weight_unit alice) (vv_weight vd))
   \<and> CreateUnverifiedWeighinAPIView_post example_env empty_world alice (Some ''self-reported'')
       \<lparr>ur_date_of_measurement = Some 3, ur_weight = Some 80, ur_weight_image = None\<rparr> =
     (\<lparr>weights = [row 1 1 3 80 0], next_pk = 2, db_now = 0, congratulations = []\<rparr>,
      Inr (Response 200 \<lparr>first_entry = True, weight_difference = 0, lost_weight = Num 0,
                         delta_weight_unit = ''kg''\<rparr>))
   \<and> (\<exists>vd m3. UnverifiedWeightSerializer_is_valid example_env (weights empty_world) alice
              (Some ''self-reported'')
              \<lparr>ur_date_of_measurement = Some 3, ur_weight = Some 80, ur_weight_image = None\<rparr>
              = Inr vd
         \<and> (weight_kilograms m3, weight_in_pounds m3) =
             convert_weight_to_kgs_and_lbs example_env (weight_unit alice) (uv_weight vd)
         \<and> [row 1 1 3 80 0] = weights empty_world @ [m3])
   \<and> UpdateWeight_update example_env
       \<lparr>weights = [row 1 1 3 80 0], next_pk = 2, db_now = 0, congratulations = []\<rparr>
       alice 1 False
       \<lparr>up_date_of_measurement = Some 4, up_weight = Some 70, up_weight_image = None,
        up_remove_image = None\<rparr> =
     (\<lparr>weights = [row 1 1 4 70 0], next_pk = 2, db_now = 0, congratulations = []\<rparr>,
      Inr (row 1 1 4 70 0))
   \<and> (\<exists>vd. UpdateWeightSerializer_is_valid example_env [row 1 1 3 80 0] alice False
              \<lparr>up_date_of_measurement = Some 4, up_weight = Some 70, up_weight_image = None,
               up_remove_image = None\<rparr> = Inr vd
         \<and> (weight_kilograms (row 1 1 4 70 0), weight_in_pounds (row 1 1 4 70 0)) =
             convert_weight_to_kgs_and_lbs example_env (weight_unit alice) (uq_weight vd))"
proof -
  note t = stored_weights_are_one_conversion
  have c1: "\<exists>vd. WeightSerializer_is_valid example_env (weights empty_world) alice
              \<lparr>wr_date_of_measurement = Some 3, wr_weight = Some 80\<rparr> = Inr vd
         \<and> (weight_kilograms (row 1 1 3 80 0), weight_in_pounds (row 1 1 3 80 0)) =
             convert_weight_to_kgs_and_lbs example_env (weight_unit alice) (wv_weight vd)"
    using t [THEN conjunct1, THEN mp, OF example_create_weighin] by blast
  have c2: "\<exists>vd. VideoVerificationSerializer_is_valid example_env (weights empty_world) alice
              \<lparr>rq_weight = Some 80, rq_date = Some 3, rq_s3_file_url = Some ''f'',
               rq_video_url = None, rq_competitor_ids = None, rq_platform = None\<rparr> = Inr vd
         \<and> (weight_kilograms ((row 1 1 3 80 0)\<lparr>verified := True, verifier_file := Some ''f''\<rparr>),
             weight_in_pounds ((row 1 1 3 80 0)\<lparr>verified := True, verifier_file := Some ''f''\<rparr>)) =
             convert_weight_to_kgs_and_lbs example_env (weight_unit alice) (vv_weight vd)"
    using t [THEN conjunct2, THEN conjunct1, THEN mp, OF example_video] by blast
  have c3: "\<exists>vd m3. UnverifiedWeightSerializer_is_valid example_env (weights empty_world) alice
              (Some ''self-reported'')
              \<lparr>ur_date_of_measurement = Some 3, ur_weight = Some 80, ur_weight_image = None\<rparr>
              = Inr vd
         \<and> (weight_kilograms m3, weight_in_pounds m3) =
             convert_weight_to_kgs_and_lbs example_env (weight_unit alice) (uv_weight vd)
         \<and> [row 1 1 3 80 0] = weights empty_world @ [m3]"
    using t [THEN conjunct2, THEN conjunct2, THEN conjunct1, THEN mp, OF example_unverified]
    by simp
  have c4: "\<exists>vd. UpdateWeightSerializer_is_valid example_env [row 1 1 3 80 0] alice False
              \<lparr>up_date_of_measurement = Some 4, up_weight = Some 70, up_weight_image = None,
               up_remove_image = None\<rparr> = Inr vd
         \<and> (weight_kilograms (row 1 1 4 70 0), weight_in_pounds (row 1 1 4 70 0)) =
             convert_weight_to_kgs_and_lbs example_env (weight_unit alice) (uq_weight vd)"
    using t [THEN conjunct2, THEN conjunct2, THEN conjunct2, THEN mp, OF example_update]
    by auto
  show ?thesis
    using example_create_weighin example_video example_unverified example_update c1 c2 c3 c4
    by blast
qed

subsection \<open>Base64, file extensions and stripped keys\<close>

lemma b64_alphabet_length: "length b64_alphabet = 64"
  by (simp add: b64_alphabet_def)

lemma b64_alphabet_distinct: "distinct b64_alphabet"
  by (simp add: b64_alphabet_def)

lemma b64_char_inj:
  "i < 64 \<Longrightarrow> j < 64 \<Longrightarrow> b64_char i = b64_char j \<Longrightarrow> i = j"
  using b64_alphabet_distinct b64_alphabet_length
  by (simp add: b64_char_def nth_eq_iff_index_eq)

lemma b64_char_mem: "i < 64 \<Longrightarrow> b64_char i \<in> set b64_alphabet"
  by (simp add: b64_char_def b64_alphabet_length)

lemma b64_alphabet_plain:
  "c \<in> set b64_alphabet \<Longrightarrow>
     c \<noteq> CHR ''='' \<and> c \<noteq> CHR ''.'' \<and> c \<notin> set (concat whitespace) \<and> \<not> bytes_isspace c"
  by (auto simp: b64_alphabet_def whitespace_def bytes_isspace_def)

lemma b64_char_plain:
  "i < 64 \<Longrightarrow> b64_char i \<noteq> CHR ''='' \<and> b64_char i \<noteq> CHR ''.''
      \<and> b64_char i \<notin> set (concat whitespace) \<and> \<not> bytes_isspace (b64_char i)"
  using b64_alphabet_plain [OF b64_char_mem] by blast

lemma sextets_bound:
  fixes x y z :: nat
  assumes "x < 256" "y < 256" "z < 256"
  shows "x div 4 < 64" "(x mod 4) * 16 < 64" "(x mod 4) * 16 + y div 16 < 64"
    "(y mod 16) * 4 < 64" "(y mod 16) * 4 + z div 64 < 64" "z mod 64 < 64"
proof -
  have a: "x mod 4 \<le> 3" "y mod 16 \<le> 15" by simp_all
  have b: "y div 16 \<le> 15" "z div 64 \<le> 3" "x div 4 \<le> 63" using assms by simp_all
  show "x div 4 < 64" using b by simp
  show "(x mod 4) * 16 < 64" using a by simp
  show "(x mod 4) * 16 + y div 16 < 64" using a b by simp
  show "(y mod 16) * 4 < 64" using a by simp
  show "(y mod 16) * 4 + z div 64 < 64" using a b by simp
  show "z mod 64 < 64" by simp
qed

lemma div_mod_eqI:
  fixes x x' :: nat
  assumes "x div k = x' div k" "x mod k = x' mod k"
  shows "x = x'"
  using assms by (metis div_mult_mod_eq)

lemma split_sum:
  fixes a b a' b' k :: nat
  assumes "b < k" "b' < k" "a * k + b = a' * k + b'"
  shows "a = a' \<and> b = b'"
proof -
  have "(a * k + b) div k = a" "(a' * k + b') div k = a'"
    using assms(1,2) by simp_all
  then have "a = a'" using assms(3) by simp
  then show ?thesis using assms(3) by simp
qed

lemma sextets_one_inj:
  fixes x x' :: nat
  assumes "x div 4 = x' div 4" "(x mod 4) * 16 = (x' mod 4) * 16"
  shows "x = x'"
  using assms by (intro div_mod_eqI [of x 4 x']) simp_all

lemma sextets_two_inj:
  fixes x x' y y' :: nat
  assumes "y < 256" "y' < 256"
    and "x div 4 = x' div 4" "(x mod 4) * 16 + y div 16 = (x' mod 4) * 16 + y' div 16"
    "(y mod 16) * 4 = (y' mod 16) * 4"
  shows "x = x' \<and> y = y'"
proof -
  have "y div 16 < 16" "y' div 16 < 16" using assms(1,2) by simp_all
  from split_sum [OF this assms(4)] have m: "x mod 4 = x' mod 4" "y div 16 = y' div 16"
    by simp_all
  have "x = x'" using assms(3) m(1) by (rule div_mod_eqI)
  moreover have "y = y'" using m(2) assms(5) by (intro div_mod_eqI [of y 16 y']) simp_all
  ultimately show ?thesis by simp
qed

lemma sextets_three_inj:
  fixes x x' y y' z z' :: nat
  assumes "y < 256" "y' < 256" "z < 256" "z' < 256"
    and "x div 4 = x' div 4" "(x mod 4) * 16 + y div 16 = (x' mod 4) * 16 + y' div 16"
    "(y mod 16) * 4 + z div 64 = (y' mod 16) * 4 + z' div 64" "z mod 64 = z' mod 64"
  shows "x = x' \<and> y = y' \<and> z = z'"
proof -
  have "y div 16 < 16" "y' div 16 < 16" using assms(1,2) by simp_all
  from split_sum [OF this assms(6)] have m: "x mod 4 = x' mod 4" "y div 16 = y' div 16"
    by simp_all
  have "z div 64 < 4" "z' div 64 < 4" using assms(3,4) by simp_all
  from split_sum [OF this assms(7)] have n: "y mod 16 = y' mod 16" "z div 64 = z' div 64"
    by simp_all
  have "x = x'" using assms(5) m(1) by (rule div_mod_eqI)
  moreover have "y = y'" using m(2) n(1) by (rule div_mod_eqI)
  moreover have "z = z'" using n(2) assms(8) by (rule div_mod_eqI)
  ultimately show ?thesis by simp
qed

lemma b64_quad_inj:
  fixes x y z x' y' z' :: nat
  assumes b: "x < 256" "y < 256" "z < 256" "x' < 256" "y' < 256" "z' < 256"
    and e: "b64_char (x div 4) = b64_char (x' div 4)"
      "b64_char ((x mod 4) * 16 + y div 16) = b64_char ((x' mod 4) * 16 + y' div 16)"
      "b64_char ((y mod 16) * 4 + z div 64) = b64_char ((y' mod 16) * 4 + z' div 64)"
      "b64_char (z mod 64) = b64_char (z' mod 64)"
  shows "x = x' \<and> y = y' \<and> z = z'"
proof -
  note s = sextets_bound [OF b(1,2,3)] and s' = sextets_bound [OF b(4,5,6)]
  have "x div 4 = x' div 4"
    using b64_char_inj [OF s(1) s'(1) e(1)] .
  moreover have "(x mod 4) * 16 + y div 16 = (x' mod 4) * 16 + y' div 16"
    using b64_char_inj [OF s(3) s'(3) e(2)] .
  moreover have "(y mod 16) * 4 + z div 64 = (y' mod 16) * 4 + z' div 64"
    using b64_char_inj [OF s(5) s'(5) e(3)] .
  moreover have "z mod 64 = z' mod 64"
    using b64_char_inj [OF s(6) s'(6) e(4)] .
  ultimately show ?thesis
    using sextets_three_inj [OF b(2) b(5) b(3) b(6)] by blast
qed

lemma b64_triple_inj:
  fixes x y x' y' :: nat
  assumes b: "x < 256" "y < 256" "x' < 256" "y' < 256"
    and e: "b64_char (x div 4) = b64_char (x' div 4)"
      "b64_char ((x mod 4) * 16 + y div 16) = b64_char ((x' mod 4) * 16 + y' div 16)"
      "b64_char ((y mod 16) * 4) = b64_char ((y' mod 16) * 4)"
  shows "x = x' \<and> y = y'"
proof -
  note s = sextets_bound [OF b(1,2,2)] and s' = sextets_bound [OF b(3,4,4)]
  have "x div 4 = x' div 4"
    using b64_char_inj [OF s(1) s'(1) e(1)] .
  moreover have "(x mod 4) * 16 + y div 16 = (x' mod 4) * 16 + y' div 16"
    using b64_char_inj [OF s(3) s'(3) e(2)] .
  moreover have "(y mod 16) * 4 = (y' mod 16) * 4"
    using b64_char_inj [OF s(4) s'(4) e(3)] .
  ultimately show ?thesis
    using sextets_two_inj [OF b(2) b(4)] by blast
qed

lemma b64_pair_inj:
  fixes x x' :: nat
  assumes b: "x < 256" "x' < 256"
    and e: "b64_char (x div 4) = b64_char (x' div 4)"
      "b64_char ((x mod 4) * 16) = b64_char ((x' mod 4) * 16)"
  shows "x = x'"
proof -
  note s = sextets_bound [OF b(1,1,1)] and s' = sextets_bound [OF b(2,2,2)]
  have "x div 4 = x' div 4"
    using b64_char_inj [OF s(1) s'(1) e(1)] .
  moreover have "(x mod 4) * 16 = (x' mod 4) * 16"
    using b64_char_inj [OF s(2) s'(2) e(2)] .
  ultimately show ?thesis
    by (rule sextets_one_inj)
qed

lemma b64encode_set:
  "c \<in> set (b64encode s) \<Longrightarrow> c \<in> set b64_alphabet \<or> c = CHR ''=''"
proof (induction s rule: b64encode.induct)
  case 1
  then show ?case by simp
next
  case (2 a)
  note s = sextets_bound [OF nat_of_char_less_256 [of a] nat_of_char_less_256 [of a]
      nat_of_char_less_256 [of a]]
  from 2 show ?case
    using b64_char_mem [OF s(1)] b64_char_mem [OF s(2)] by (auto simp: Let_def)
next
  case (3 a b)
  note s = sextets_bound [OF nat_of_char_less_256 [of a] nat_of_char_less_256 [of b]
      nat_of_char_less_256 [of b]]
  from 3 show ?case
    using b64_char_mem [OF s(1)] b64_char_mem [OF s(3)] b64_char_mem [OF s(4)]
    by (auto simp: Let_def)
next
  case (4 a b c' rest)
  note s = sextets_bound [OF nat_of_char_less_256 [of a] nat_of_char_less_256 [of b]
      nat_of_char_less_256 [of c']]
  from 4 show ?case
    using b64_char_mem [OF s(1)] b64_char_mem [OF s(3)] b64_char_mem [OF s(5)]
      b64_char_mem [OF s(6)]
    by (auto simp: Let_def)
qed

lemma b64encode_plain:
  assumes "c \<in> set (b64encode s)"
  shows "c \<noteq> CHR ''.''" and "c \<notin> set (concat whitespace)" and "\<not> bytes_isspace c"
proof -
  have eq: "CHR ''='' \<noteq> CHR ''.''" "CHR ''='' \<notin> set (concat whitespace)" "\<not> bytes_isspace CHR ''=''"
    by (simp_all add: whitespace_def bytes_isspace_def)
  from b64encode_set [OF assms] show "c \<noteq> CHR ''.''" and "c \<notin> set (concat whitespace)"
    and "\<not> bytes_isspace c"
    using b64_alphabet_plain [of c] eq by blast+
qed

lemma b64encode_Nil_iff: "b64encode s = [] \<longleftrightarrow> s = []"
  by (cases s rule: b64encode.cases) (simp_all add: Let_def)

lemma b64encode_inj: "b64encode x = b64encode y \<Longrightarrow> x = y"
proof (induction x arbitrary: y rule: b64encode.induct)
  case 1
  then show ?case by (metis b64encode.simps(1) b64encode_Nil_iff)
next
  case (2 a)
  note sa = sextets_bound [OF nat_of_char_less_256 [of a] nat_of_char_less_256 [of a]
      nat_of_char_less_256 [of a]]
  show ?case
  proof (cases y rule: b64encode.cases)
    case 1
    with 2 show ?thesis by (simp add: Let_def)
  next
    case (2 a')
    with "2.prems" have "(of_char a :: nat) = of_char a'"
      by (intro b64_pair_inj) (simp_all add: Let_def)
    with 2 show ?thesis by simp
  next
    case (3 a' b')
    note s = sextets_bound [OF nat_of_char_less_256 [of a'] nat_of_char_less_256 [of b']
        nat_of_char_less_256 [of b']]
    from 3 "2.prems" b64_char_plain [OF s(4)] show ?thesis by (simp add: Let_def)
  next
    case (4 a' b' c' rest')
    note s = sextets_bound [OF nat_of_char_less_256 [of a'] nat_of_char_less_256 [of b']
        nat_of_char_less_256 [of c']]
    from 4 "2.prems" b64_char_plain [OF s(5)] show ?thesis by (simp add: Let_def)
  qed
next
  case (3 a b)
  note sa = sextets_bound [OF nat_of_char_less_256 [of a] nat_of_char_less_256 [of b]
      nat_of_char_less_256 [of b]]
  show ?case
  proof (cases y rule: b64encode.cases)
    case 1
    with 3 show ?thesis by (simp add: Let_def)
  next
    case (2 a')
    from 2 "3.prems" b64_char_plain [OF sa(4)] show ?thesis by (simp add: Let_def)
  next
    case (3 a' b')
    with "3.prems" have "(of_char a :: nat) = of_char a' \<and> (of_char b :: nat) = of_char b'"
      by (intro b64_triple_inj) (simp_all add: Let_def)
    with 3 show ?thesis by simp
  next
    case (4 a' b' c' rest')
    note s = sextets_bound [OF nat_of_char_less_256 [of a'] nat_of_char_less_256 [of b']
        nat_of_char_less_256 [of c']]
    from 4 "3.prems" b64_char_plain [OF s(6)] show ?thesis by (simp add: Let_def)
  qed
next
  case (4 a b c rest)
  note sa = sextets_bound [OF nat_of_char_less_256 [of a] nat_of_char_less_256 [of b]
      nat_of_char_less_256 [of c]]
  show ?case
  proof (cases y rule: b64encode.cases)
    case 1
    with 4 show ?thesis by (simp add: Let_def)
  next
    case (2 a')
    from 2 "4.prems" b64_char_plain [OF sa(5)] show ?thesis by (simp add: Let_def)
  next
    case (3 a' b')
    from 3 "4.prems" b64_char_plain [OF sa(6)] show ?thesis by (simp add: Let_def)
  next
    case (4 a' b' c' rest')
    with "4.prems" have
      "(of_char a :: nat) = of_char a' \<and> (of_char b :: nat) = of_char b'
         \<and> (of_char c :: nat) = of_char c'"
      by (intro b64_quad_inj) (simp_all add: Let_def)
    moreover have "rest = rest'"
      using 4 "4.prems" "4.IH" by (simp add: Let_def)
    ultimately show ?thesis using 4 by simp
  qed
qed

lemma rfind_from_cases:
  "(c \<notin> set xs \<and> rfind_from c xs i found = found)
   \<or> (\<exists>k < length xs. rfind_from c xs i found = int (i + k) \<and> xs ! k = c
          \<and> c \<notin> set (drop (Suc k) xs))"
proof (induction xs arbitrary: i found)
  case Nil
  then show ?case by simp
next
  case (Cons x xs)
  let ?found = "if x = c then int i else found"
  from Cons.IH [of "Suc i" ?found] show ?case
  proof
    assume a: "c \<notin> set xs \<and> rfind_from c xs (Suc i) ?found = ?found"
    show ?thesis
    proof (cases "x = c")
      case True
      with a have "rfind_from c (x # xs) i found = int (i + 0) \<and> (x # xs) ! 0 = c
          \<and> c \<notin> set (drop (Suc 0) (x # xs))"
        by simp
      then show ?thesis by blast
    next
      case False
      with a show ?thesis by simp
    qed
  next
    assume "\<exists>k < length xs. rfind_from c xs (Suc i) ?found = int (Suc i + k) \<and> xs ! k = c
          \<and> c \<notin> set (drop (Suc k) xs)"
    then obtain k where k: "k < length xs" "rfind_from c xs (Suc i) ?found = int (Suc i + k)"
      "xs ! k = c" "c \<notin> set (drop (Suc k) xs)"
      by blast
    then have "Suc k < length (x # xs) \<and> rfind_from c (x # xs) i found = int (i + Suc k)
        \<and> (x # xs) ! Suc k = c \<and> c \<notin> set (drop (Suc (Suc k)) (x # xs))"
      by simp
    then show ?thesis by blast
  qed
qed

lemma rfind_cases:
  "rfind p c = - 1
   \<or> (\<exists>k < length p. rfind p c = int k \<and> p ! k = c \<and> c \<notin> set (drop (Suc k) p))"
  using rfind_from_cases [of c p 0 "- 1"] by (auto simp: rfind_def)

lemma rfind_ge: "- 1 \<le> rfind p c"
  using rfind_cases [of p c] by auto

lemma splitext_loop_Some:
  "splitext_loop p i d = Some r \<Longrightarrow> r = (take d p, drop d p)"
proof (induction p i d rule: splitext_loop.induct)
  case (1 p filenameIndex dotIndex)
  from "1.prems" show ?case
    by (subst (asm) splitext_loop.simps) (auto split: if_splits dest: "1.IH")
qed

lemma splitext_shape:
  assumes "splitext p = (r, e)"
  shows "p = r @ e"
    and "e = [] \<or> (\<exists>t. e = CHR ''.'' # t \<and> CHR ''.'' \<notin> set t)"
proof -
  have "p = r @ e \<and> (e = [] \<or> (\<exists>t. e = CHR ''.'' # t \<and> CHR ''.'' \<notin> set t))"
  proof (cases "rfind p CHR ''/'' < rfind p CHR ''.''")
    case False
    with assms show ?thesis by (simp add: splitext_def Let_def)
  next
    case True
    show ?thesis
    proof (cases "splitext_loop p (nat (rfind p CHR ''/'' + 1)) (nat (rfind p CHR ''.''))")
      case None
      with True assms show ?thesis by (simp add: splitext_def Let_def)
    next
      case (Some q)
      have "rfind p CHR ''.'' \<noteq> - 1"
        using True rfind_ge [of p "CHR ''/''"] by simp
      then obtain k where k: "k < length p" "rfind p CHR ''.'' = int k" "p ! k = CHR ''.''"
        "CHR ''.'' \<notin> set (drop (Suc k) p)"
        using rfind_cases [of p "CHR ''.''"] by blast
      have "(r, e) = (take k p, drop k p)"
        using splitext_loop_Some [OF Some] Some True assms k(2)
        by (simp add: splitext_def Let_def)
      moreover have "drop k p = CHR ''.'' # drop (Suc k) p"
        using k(1,3) by (simp add: Cons_nth_drop_Suc [symmetric])
      moreover have "p = take k p @ drop k p"
        by simp
      ultimately show ?thesis
        using k(4) by (metis prod.inject)
    qed
  qed
  then show "p = r @ e" and "e = [] \<or> (\<exists>t. e = CHR ''.'' # t \<and> CHR ''.'' \<notin> set t)"
    by simp_all
qed

lemma split_at_dot:
  assumes "CHR ''.'' \<notin> set b" and "e = [] \<or> (\<exists>t. e = CHR ''.'' # t)"
  shows "takeWhile (\<lambda>c. c \<noteq> CHR ''.'') (b @ e) = b"
    and "dropWhile (\<lambda>c. c \<noteq> CHR ''.'') (b @ e) = e"
proof -
  have b: "\<And>x. x \<in> set b \<Longrightarrow> x \<noteq> CHR ''.''"
    using assms(1) by blast
  have e: "takeWhile (\<lambda>c. c \<noteq> CHR ''.'') e = []" "dropWhile (\<lambda>c. c \<noteq> CHR ''.'') e = e"
    using assms(2) by auto
  show "takeWhile (\<lambda>c. c \<noteq> CHR ''.'') (b @ e) = b"
    using takeWhile_append2 [of b "\<lambda>c. c \<noteq> CHR ''.''" e] b e(1) by simp
  show "dropWhile (\<lambda>c. c \<noteq> CHR ''.'') (b @ e) = e"
    using dropWhile_append2 [of b "\<lambda>c. c \<noteq> CHR ''.''" e] b e(2) by simp
qed

lemma encoded_file_name_inj:
  assumes "encoded_file_name f = encoded_file_name g"
  shows "f = g"
proof -
  obtain r e where f: "splitext f = (r, e)" by (cases "splitext f")
  obtain r' e' where g: "splitext g = (r', e')" by (cases "splitext g")
  have eq: "b64encode r @ e = b64encode r' @ e'"
    using assms f g by (simp add: encoded_file_name_def)
  have nd: "CHR ''.'' \<notin> set (b64encode r)" "CHR ''.'' \<notin> set (b64encode r')"
    using b64encode_plain(1) by blast+
  have se: "e = [] \<or> (\<exists>t. e = CHR ''.'' # t)" "e' = [] \<or> (\<exists>t. e' = CHR ''.'' # t)"
    using splitext_shape(2) [OF f] splitext_shape(2) [OF g] by blast+
  have "b64encode r = b64encode r'"
    using split_at_dot(1) [OF nd(1) se(1)] split_at_dot(1) [OF nd(2) se(2)] eq by simp
  moreover have "e = e'"
    using split_at_dot(2) [OF nd(1) se(1)] split_at_dot(2) [OF nd(2) se(2)] eq by simp
  ultimately show ?thesis
    using b64encode_inj splitext_shape(1) [OF f] splitext_shape(1) [OF g] by blast
qed

lemma trailing_whitespace_Nil: "trailing_whitespace [] = 0"
  by (simp add: trailing_whitespace_0_iff whitespace_nonempty)

lemma dot_dash_plain:
  "CHR ''.'' \<notin> set (concat whitespace)" "CHR ''-'' \<notin> set (concat whitespace)"
  by (simp_all add: whitespace_def)

lemma encoded_file_name_trailing:
  assumes "f \<noteq> []" and "trailing_whitespace f = 0"
  shows "trailing_whitespace (x @ encoded_file_name f) = 0"
proof -
  obtain r e where s: "splitext f = (r, e)" by (cases "splitext f")
  have f: "f = r @ e" using splitext_shape(1) [OF s] .
  have enc: "encoded_file_name f = b64encode r @ e"
    using s by (simp add: encoded_file_name_def)
  show ?thesis
  proof (cases "e = []")
    case True
    then have ne: "b64encode r \<noteq> []"
      using f assms(1) by (simp add: b64encode_Nil_iff)
    then have "last (b64encode r) \<in> set (b64encode r)"
      by simp
    then have "last (b64encode r) \<notin> set (concat whitespace)"
      by (rule b64encode_plain(2))
    then have "trailing_whitespace ((x @ butlast (b64encode r)) @ last (b64encode r) # []) = 0"
      using trailing_whitespace_append [of "last (b64encode r)" "x @ butlast (b64encode r)" "[]"]
      by (simp add: trailing_whitespace_Nil)
    then show ?thesis
      using enc True ne by simp
  next
    case False
    then obtain t where t: "e = CHR ''.'' # t"
      using splitext_shape(2) [OF s] by blast
    have "trailing_whitespace ((x @ b64encode r) @ CHR ''.'' # t) = trailing_whitespace t"
      by (rule trailing_whitespace_append) (rule dot_dash_plain(1))
    moreover have "trailing_whitespace (r @ CHR ''.'' # t) = trailing_whitespace t"
      by (rule trailing_whitespace_append) (rule dot_dash_plain(1))
    ultimately show ?thesis
      using enc t f assms(2) by simp
  qed
qed

lemma strip_key:
  assumes "f \<noteq> []" and "trailing_whitespace f = 0"
  shows "strip (h @ ''-'' @ code @ ''-'' @ encoded_file_name f)
           = lstrip h @ ''-'' @ code @ ''-'' @ encoded_file_name f"
proof -
  have l: "lstrip (h @ ''-'' @ code @ ''-'' @ encoded_file_name f)
             = lstrip h @ ''-'' @ code @ ''-'' @ encoded_file_name f"
    using lstrip_keep [OF dot_dash_plain(2), of h "code @ ''-'' @ encoded_file_name f"] by simp
  have "trailing_whitespace ((lstrip h @ ''-'' @ code @ ''-'') @ encoded_file_name f) = 0"
    using assms by (rule encoded_file_name_trailing)
  then have "rstrip (lstrip h @ ''-'' @ code @ ''-'' @ encoded_file_name f)
          = lstrip h @ ''-'' @ code @ ''-'' @ encoded_file_name f"
    by (intro rstrip_id) simp
  then show ?thesis
    using l by (simp add: strip_def)
qed

lemma dropWhile_none: "(\<And>c. c \<in> set s \<Longrightarrow> \<not> P c) \<Longrightarrow> dropWhile P s = s"
  by (cases s) simp_all

lemma bytes_strip_b64encode: "bytes_strip (b64encode s) = b64encode s"
proof -
  have "dropWhile bytes_isspace (b64encode s) = b64encode s"
    by (rule dropWhile_none) (rule b64encode_plain(3))
  moreover have "dropWhile bytes_isspace (rev (b64encode s)) = rev (b64encode s)"
    by (rule dropWhile_none) (simp add: b64encode_plain(3))
  ultimately show ?thesis
    by (simp add: bytes_strip_def)
qed

lemma encodestring_short:
  assumes "s \<noteq> []" and "length s \<le> 57"
  shows "encodestring s = b64encode s @ [CHR 0x0A]"
  using assms by (subst encodestring.simps) (simp add: encodestring.simps [of "[]"])

lemma bytes_strip_line:
  assumes "s \<noteq> []"
  shows "bytes_strip (b64encode s @ [CHR 0x0A]) = b64encode s"
proof -
  have ne: "b64encode s \<noteq> []"
    using assms by (simp add: b64encode_Nil_iff)
  have front: "dropWhile bytes_isspace (b64encode s @ [CHR 0x0A]) = b64encode s @ [CHR 0x0A]"
    using ne b64encode_plain(3) [of "hd (b64encode s)" s]
    by (simp add: dropWhile_eq_self_iff)
  have "dropWhile bytes_isspace (rev (b64encode s)) = rev (b64encode s)"
    by (rule dropWhile_none) (simp add: b64encode_plain(3))
  then have "dropWhile bytes_isspace (rev (b64encode s @ [CHR 0x0A])) = rev (b64encode s)"
    by (simp add: bytes_isspace_def)
  then show ?thesis
    using front by (simp add: bytes_strip_def)
qed

lemma py_int_of_int: "py_int (of_int n) = n"
  by (simp add: py_int_def)

subsection \<open>Upload signing\<close>

lemma CharField_Inr: "CharField n raw = Inr v \<Longrightarrow> v = strip raw \<and> v \<noteq> []"
  by (auto simp: CharField_def Let_def split: if_splits)

lemma sign_is_valid_Inr:
  assumes "ApiSignS3PutRequestViewSerializer_is_valid e rows usr rq = Inr vd"
  shows "\<exists>fn. sq_video_filename rq = Some fn \<and> sv_video_filename vd = strip fn
           \<and> strip fn \<noteq> [] \<and> sv_user vd = usr"
proof -
  from assms obtain raw_name video_filename where
    r: "required (sq_video_filename rq) = Inr raw_name"
    and c: "CharField (Some 1000) raw_name = Inr video_filename"
    and v: "sv_video_filename vd = video_filename" "sv_user vd = usr"
    unfolding ApiSignS3PutRequestViewSerializer_is_valid_def
    by (auto dest!: and_then_Inr)
  from r have "sq_video_filename rq = Some raw_name"
    by (simp add: required_def split: option.splits)
  then show ?thesis
    using CharField_Inr [OF c] v by auto
qed

lemma sign_get_Inr:
  assumes "ApiSignS3PutRequestView_get e t now rows usr rq = Inr (Response s r)"
  shows "\<exists>vd. ApiSignS3PutRequestViewSerializer_is_valid e rows usr rq = Inr vd
           \<and> r = ApiSignS3PutRequestViewSerializer_create e t now vd"
  using assms by (auto simp: ApiSignS3PutRequestView_get_def split: sum.splits)

lemma sign_create_fields:
  "key (ApiSignS3PutRequestViewSerializer_create e t now vd) =
     strip (object_name e t (sv_user vd) (sv_video_filename vd))"
  "policy (ApiSignS3PutRequestViewSerializer_create e t now vd) =
     b64encode (json_dumps e
       (policy_document e now (object_name e t (sv_user vd) (sv_video_filename vd))))"
  "signature (ApiSignS3PutRequestViewSerializer_create e t now vd) =
     bytes_strip (encodestring (hmac_sha1_digest e (S3_SECRET_KEY e)
       (b64encode (json_dumps e
          (policy_document e now (object_name e t (sv_user vd) (sv_video_filename vd)))))))"
  by (simp_all add: ApiSignS3PutRequestViewSerializer_create_def Let_def bytes_strip_b64encode)

lemma encoded_file_name_splitext:
  "encoded_file_name f = b64encode (fst (splitext f)) @ snd (splitext f)"
  by (simp add: encoded_file_name_def case_prod_beta)

lemma sign_key:
  "strip (object_name e t usr (strip fn)) =
     lstrip (sha1_hexdigest e (str_int (expires t))) @ ''-'' @ special_code usr @ ''-''
       @ encoded_file_name (strip fn)"
  if "strip fn \<noteq> []"
  unfolding object_name_def
  using that trailing_whitespace_strip [of fn] by (rule strip_key)

lemma sign_response_key:
  assumes "ApiSignS3PutRequestView_get e t now rows usr rq = Inr (Response s r)"
  shows "\<exists>fn. sq_video_filename rq = Some fn
           \<and> key r = lstrip (sha1_hexdigest e (str_int (expires t))) @ ''-''
                 @ special_code usr @ ''-'' @ encoded_file_name (strip fn)
           \<and> policy r = b64encode (json_dumps e
                 (policy_document e now (object_name e t usr (strip fn))))
           \<and> signature r = bytes_strip (encodestring
                 (hmac_sha1_digest e (S3_SECRET_KEY e) (policy r)))"
proof -
  from sign_get_Inr [OF assms] obtain vd where
    vd: "ApiSignS3PutRequestViewSerializer_is_valid e rows usr rq = Inr vd"
    and r: "r = ApiSignS3PutRequestViewSerializer_create e t now vd"
    by blast
  from sign_is_valid_Inr [OF vd] obtain fn where
    fn: "sq_video_filename rq = Some fn" "sv_video_filename vd = strip fn" "strip fn \<noteq> []"
      "sv_user vd = usr"
    by blast
  show ?thesis
    using fn r sign_key [OF fn(3), of e t usr] by (simp add: sign_create_fields)
qed

text \<open>
  Claim C6, as the code has it. For every signing request the view accepts, the key is
  the SHA-1 digest of the expiry (stripped on its left), the requesting user's code, and the
  base64 encoding of the stem of the file name followed by its extension, where the file
  name is the submitted one without its surrounding whitespace. For one user and one time,
  two accepted requests get the same key exactly when their file names are equal once
  stripped. The signature is \<^verbatim>\<open>encodestring\<close> of the HMAC-SHA1, under the secret key, of
  the returned base64 policy.
\<close>

theorem upload_key_and_signature:
  assumes "ApiSignS3PutRequestView_get e t now rows usr rq = Inr (Response s r)"
    and "ApiSignS3PutRequestView_get e t now' rows' usr rq' = Inr (Response s' r')"
  shows "\<exists>fn fn'. sq_video_filename rq = Some fn \<and> sq_video_filename rq' = Some fn'
           \<and> key r = lstrip (sha1_hexdigest e (str_int (expires t))) @ ''-''
                 @ special_code usr @ ''-''
                 @ b64encode (fst (splitext (strip fn))) @ snd (splitext (strip fn))
           \<and> fst (splitext (strip fn)) @ snd (splitext (strip fn)) = strip fn
           \<and> (key r = key r') = (strip fn = strip fn')
           \<and> signature r = bytes_strip (encodestring
                 (hmac_sha1_digest e (S3_SECRET_KEY e) (policy r)))"
proof -
  from sign_response_key [OF assms(1)] obtain fn where
    fn: "sq_video_filename rq = Some fn"
      "key r = lstrip (sha1_hexdigest e (str_int (expires t))) @ ''-''
         @ special_code usr @ ''-'' @ encoded_file_name (strip fn)"
      "signature r = bytes_strip (encodestring
         (hmac_sha1_digest e (S3_SECRET_KEY e) (policy r)))"
    by blast
  from sign_response_key [OF assms(2)] obtain fn' where
    fn': "sq_video_filename rq' = Some fn'"
      "key r' = lstrip (sha1_hexdigest e (str_int (expires t))) @ ''-''
         @ special_code usr @ ''-'' @ encoded_file_name (strip fn')"
    by blast
  have "(key r = key r') = (encoded_file_name (strip fn) = encoded_file_name (strip fn'))"
    using fn(2) fn'(2) by simp
  also have "\<dots> = (strip fn = strip fn')"
  proof
    assume "encoded_file_name (strip fn) = encoded_file_name (strip fn')"
    then show "strip fn = strip fn'"
      by (rule encoded_file_name_inj)
  next
    assume "strip fn = strip fn'"
    then show "encoded_file_name (strip fn) = encoded_file_name (strip fn')"
      by simp
  qed
  finally have inj: "(key r = key r') = (strip fn = strip fn')" .
  have shape: "fst (splitext (strip fn)) @ snd (splitext (strip fn)) = strip fn"
    using splitext_shape(1) [of "strip fn" "fst (splitext (strip fn))" "snd (splitext (strip fn))"]
    by simp
  have k: "key r = lstrip (sha1_hexdigest e (str_int (expires t))) @ ''-''
      @ special_code usr @ ''-''
      @ b64encode (fst (splitext (strip fn))) @ snd (splitext (strip fn))"
    using fn(2) by (simp only: encoded_file_name_splitext)
  from fn(1) fn'(1) k shape inj fn(3) show ?thesis
    by blast
qed

text \<open>Two accepted requests of one user, for \<^verbatim>\<open>a.mp4\<close> and for \<^verbatim>\<open>b.mp4\<close>.\<close>

lemma strip_examples:
  "strip ''a.mp4'' = ''a.mp4''" "strip ''b.mp4'' = ''b.mp4''" "strip '' a.mp4'' = ''a.mp4''"
  "len ''a.mp4'' = 5" "len ''b.mp4'' = 5"
  by code_simp+

lemma example_sign:
  "ApiSignS3PutRequestView_get example_env 0 0 [] alice
       \<lparr>sq_weight = Some 80, sq_height_big = Some 5, sq_height_small = Some 9,
        sq_date = Some 3, sq_video_filename = Some fn, sq_competitor_ids = None\<rparr> =
     Inr (Response 200 (ApiSignS3PutRequestViewSerializer_create example_env 0 0
       \<lparr>sv_user = alice, sv_date = 3, sv_video_filename = strip fn,
        sv_competitor_ids = []\<rparr>))"
  if "strip fn \<noteq> []" and "len (strip fn) \<le> 1000"
  using that
  by (simp add: ApiSignS3PutRequestView_get_def ApiSignS3PutRequestViewSerializer_is_valid_def
      required_def CharField_def optional_CharField_html_def optional_CharField_def raising_def
      example_env_fields Let_def)

theorem upload_key_and_signature_witness:
  "\<exists>r r'. ApiSignS3PutRequestView_get example_env 0 0 [] alice
       \<lparr>sq_weight = Some 80, sq_height_big = Some 5, sq_height_small = Some 9,
        sq_date = Some 3, sq_video_filename = Some ''a.mp4'', sq_competitor_ids = None\<rparr> =
      Inr (Response 200 r)
    \<and> ApiSignS3PutRequestView_get example_env 0 0 [] alice
       \<lparr>sq_weight = Some 80, sq_height_big = Some 5, sq_height_small = Some 9,
        sq_date = Some 3, sq_video_filename = Some ''b.mp4'', sq_competitor_ids = None\<rparr> =
      Inr (Response 200 r')
    \<and> key r \<noteq> key r'
    \<and> key r = lstrip (sha1_hexdigest example_env (str_int (expires 0))) @ ''-''
          @ special_code alice @ ''-''
          @ b64encode (fst (splitext ''a.mp4'')) @ snd (splitext ''a.mp4'')
    \<and> signature r = bytes_strip (encodestring
          (hmac_sha1_digest example_env (S3_SECRET_KEY example_env) (policy r)))"
proof -
  have a: "strip ''a.mp4'' \<noteq> []" "len (strip ''a.mp4'') \<le> 1000"
    and b: "strip ''b.mp4'' \<noteq> []" "len (strip ''b.mp4'') \<le> 1000"
    by (simp_all add: strip_examples)
  show ?thesis
    using upload_key_and_signature [OF example_sign [OF a] example_sign [OF b]]
      example_sign [OF a] example_sign [OF b]
    by (auto simp: strip_examples)
qed

text \<open>
  Two different file names with one key: \<^verbatim>\<open>a.mp4\<close> and the same name behind a space,
  which the \<^verbatim>\<open>CharField\<close> strips.
\<close>

theorem different_filenames_same_key:
  "\<exists>r. ApiSignS3PutRequestView_get example_env 0 0 [] alice
       \<lparr>sq_weight = Some 80, sq_height_big = Some 5, sq_height_small = Some 9,
        sq_date = Some 3, sq_video_filename = Some ''a.mp4'', sq_competitor_ids = None\<rparr> =
      Inr (Response 200 r)
    \<and> ApiSignS3PutRequestView_get example_env 0 0 [] alice
       \<lparr>sq_weight = Some 80, sq_height_big = Some 5, sq_height_small = Some 9,
        sq_date = Some 3, sq_video_filename = Some '' a.mp4'', sq_competitor_ids = None\<rparr> =
      Inr (Response 200 r)
    \<and> ''a.mp4'' \<noteq> '' a.mp4''"
proof -
  have a: "strip ''a.mp4'' \<noteq> []" "len (strip ''a.mp4'') \<le> 1000"
    and b: "strip '' a.mp4'' \<noteq> []" "len (strip '' a.mp4'') \<le> 1000"
    by (simp_all add: strip_examples)
  show ?thesis
    using example_sign [OF a] example_sign [OF b] by (simp add: strip_examples)
qed

lemma py_int_near: "\<bar>of_int (py_int x) - x\<bar> < 1"
  unfolding py_int_def by (auto; linarith)

text \<open>
  Claim C7. For every signing request the view accepts, the returned policy is the base64
  encoding of the JSON text of a document whose conditions name the bucket, require the
  key to start with the object name, the ACL \<^verbatim>\<open>public-read\<close> and the success status
  \<^verbatim>\<open>201\<close>, and whose expiration is the time of issue plus 30 days
  (2592000 seconds, counted in microseconds). The returned key is that object name
  stripped, which only touches the digest at its front. The digest is taken of the
  decimal expiry \<^verbatim>\<open>int(t + 1000)\<close>: the time of issue plus 1000 seconds, in whole seconds.
\<close>

theorem policy_restrictions_and_expiry:
  assumes "ApiSignS3PutRequestView_get e t now rows usr rq = Inr (Response s r)"
  shows "\<exists>fn rest. sq_video_filename rq = Some fn
           \<and> policy r = b64encode (json_dumps e (JObject
                 [(''expiration'', JString (strftime e (now + 2592000 * 1000000))),
                  (''conditions'', JArray
                     [JObject [(''bucket'', JString (S3_BUCKET_NAME e))],
                      JArray [JString ''starts-with'', JString ''$key'',
                              JString (object_name e t usr (strip fn))],
                      JObject [(''acl'', JString ''public-read'')],
                      JObject [(''success_action_status'', JString ''201'')],
                      JArray [JString ''starts-with'', JString ''$Content-Type'',
                              JString []]])]))
           \<and> object_name e t usr (strip fn) =
                 sha1_hexdigest e (str_int (expires t)) @ rest
           \<and> key r = lstrip (sha1_hexdigest e (str_int (expires t))) @ rest
           \<and> acl r = ''public-read'' \<and> success_action_status r = 201
           \<and> \<bar>of_int (expires t) - (t + 1000)\<bar> < 1
           \<and> expires (of_int n) = n + 1000"
proof -
  from sign_get_Inr [OF assms] obtain vd where
    r: "r = ApiSignS3PutRequestViewSerializer_create e t now vd"
    by blast
  from sign_response_key [OF assms] obtain fn where
    fn: "sq_video_filename rq = Some fn"
      "key r = lstrip (sha1_hexdigest e (str_int (expires t))) @ ''-''
         @ special_code usr @ ''-'' @ encoded_file_name (strip fn)"
      "policy r = b64encode (json_dumps e
         (policy_document e now (object_name e t usr (strip fn))))"
    by blast
  let ?rest = "''-'' @ special_code usr @ ''-'' @ encoded_file_name (strip fn)"
  have o: "object_name e t usr (strip fn) = sha1_hexdigest e (str_int (expires t)) @ ?rest"
    by (simp add: object_name_def)
  have p: "policy_document e now (object_name e t usr (strip fn)) =
      JObject [(''expiration'', JString (strftime e (now + 2592000 * 1000000))),
               (''conditions'', JArray
                  [JObject [(''bucket'', JString (S3_BUCKET_NAME e))],
                   JArray [JString ''starts-with'', JString ''$key'',
                           JString (object_name e t usr (strip fn))],
                   JObject [(''acl'', JString ''public-read'')],
                   JObject [(''success_action_status'', JString ''201'')],
                   JArray [JString ''starts-with'', JString ''$Content-Type'', JString []]])]"
    by (simp add: policy_document_def conditions_def timedelta_days_def)
  have a: "acl r = ''public-read''" "success_action_status r = 201"
    using r by (simp_all add: ApiSignS3PutRequestViewSerializer_create_def Let_def)
  have x: "\<bar>of_int (expires t) - (t + 1000)\<bar> < 1" "expires (of_int n) = n + 1000"
    using py_int_near [of "t + 1000"] py_int_of_int [of "n + 1000"]
    by (simp_all add: expires_def)
  from fn(1) fn(3) [unfolded p] o fn(2) a x show ?thesis
    by blast
qed

text \<open>The theorem on an accepted request, issued at time 0.\<close>

theorem policy_restrictions_and_expiry_witness:
  "\<exists>r rest. ApiSignS3PutRequestView_get example_env 0 0 [] alice
       \<lparr>sq_weight = Some 80, sq_height_big = Some 5, sq_height_small = Some 9,
        sq_date = Some 3, sq_video_filename = Some ''a.mp4'', sq_competitor_ids = None\<rparr> =
      Inr (Response 200 r)
    \<and> policy r = b64encode (json_dumps example_env (JObject
          [(''expiration'', JString (strftime example_env (0 + 2592000 * 1000000))),
           (''conditions'', JArray
              [JObject [(''bucket'', JString (S3_BUCKET_NAME example_env))],
               JArray [JString ''starts-with'', JString ''$key'',
                       JString (object_name example_env 0 alice ''a.mp4'')],
               JObject [(''acl'', JString ''public-read'')],
               JObject [(''success_action_status'', JString ''201'')],
               JArray [JString ''starts-with'', JString ''$Content-Type'', JString []]])]))
    \<and> object_name example_env 0 alice ''a.mp4'' =
          sha1_hexdigest example_env (str_int (expires 0)) @ rest
    \<and> key r = lstrip (sha1_hexdigest example_env (str_int (expires 0))) @ rest
    \<and> expires 0 = 1000"
proof -
  have a: "strip ''a.mp4'' \<noteq> []" "len (strip ''a.mp4'') \<le> 1000"
    by (simp_all add: strip_examples)
  show ?thesis
    using policy_restrictions_and_expiry [OF example_sign [OF a], of 0] example_sign [OF a]
    by (auto simp: strip_examples)
qed

end
